theory Spec2Isabelle
  imports Complex_Main "HOL-Library.Word"
begin

unbundle bit_operations_syntax

section \<open>The FLAC extractor (media/extractors/flac/FLACExtractor.cpp)\<close>

text \<open>
  A shallow embedding of \<^verbatim>\<open>FLACExtractor.cpp\<close>. The C++ scalar types are words of
  the width the source gives them: \<^verbatim>\<open>unsigned\<close> and \<^verbatim>\<open>int\<close> are 32 bits,
  \<^verbatim>\<open>FLAC__uint64\<close>, \<^verbatim>\<open>int64_t\<close>, \<^verbatim>\<open>off64_t\<close> are 64 bits, \<^verbatim>\<open>short\<close> is
  16 bits, and \<^verbatim>\<open>size_t\<close> is taken as 64 bits (LP64). A signed variable is the word
  read with \<open>sint\<close>.
\<close>

type_synonym unsigned = "32 word"
type_synonym FLAC__int32 = "32 word"
type_synonym FLAC__uint64 = "64 word"
type_synonym int64_t = "64 word"
type_synonym size_t = "64 word"
type_synonym short = "16 word"
type_synonym byte = "8 word"

subsection \<open>Outcomes that are not a return\<close>

text \<open>
  What the C++ leaves undefined, and what ends the process, is a value of the model:
  \<^item> \<open>CheckFailed\<close>: a \<^verbatim>\<open>CHECK(...)\<close> whose condition is false (the process aborts);
  \<^item> \<open>AssertFailed\<close>: the \<^verbatim>\<open>assert\<close> of \<^verbatim>\<open>readCallback\<close>;
  \<^item> \<open>ShiftCountOutOfRange\<close>: \<^verbatim>\<open>x << n\<close> on a 32-bit \<^verbatim>\<open>int\<close> with \<open>n \<ge> 32\<close>;
  \<^item> \<open>SignedOverflow\<close>: a product of two \<^verbatim>\<open>int64_t\<close> that does not fit;
  \<^item> \<open>OutOfBounds\<close>: a read of \<^verbatim>\<open>src[c][i]\<close> outside the planes the decoder handed over;
  \<^item> \<open>BufferOverrun\<close>: a write past the capacity of the media buffer;
  \<^item> \<open>DivisionByZero\<close>: an integer division whose divisor is 0.
\<close>

datatype fault =
    CheckFailed
  | AssertFailed
  | ShiftCountOutOfRange
  | SignedOverflow
  | OutOfBounds
  | BufferOverrun
  | DivisionByZero

text \<open>Running a list of steps in order: the first fault ends the run.\<close>

fun collect :: "(fault + 'a) list \<Rightarrow> fault + 'a list" where
  "collect [] = Inr []"
| "collect (x # xs) =
     (case x of
        Inl e \<Rightarrow> Inl e
      | Inr v \<Rightarrow> (case collect xs of Inl e \<Rightarrow> Inl e | Inr vs \<Rightarrow> Inr (v # vs)))"

subsection \<open>Sample conversion: \<^verbatim>\<open>copyTo16Signed\<close> and \<^verbatim>\<open>copyToFloat\<close>\<close>

text \<open>
  \<^verbatim>\<open>src[c][i]\<close>: the planes are the arrays the decoder handed to the write callback.
\<close>

definition sample_at :: "FLAC__int32 list list \<Rightarrow> nat \<Rightarrow> nat \<Rightarrow> fault + FLAC__int32" where
  "sample_at src c i =
     (if c < length src \<and> i < length (src ! c) then Inr (src ! c ! i) else Inl OutOfBounds)"

text \<open>
  \<^verbatim>\<open>x << leftShift\<close> with \<^verbatim>\<open>x\<close> an \<^verbatim>\<open>int\<close> and \<^verbatim>\<open>leftShift\<close> an
  \<^verbatim>\<open>unsigned\<close>: two's complement shift for a count below the width of \<^verbatim>\<open>int\<close>,
  undefined from 32 on.
\<close>

definition shl_int :: "FLAC__int32 \<Rightarrow> unsigned \<Rightarrow> fault + FLAC__int32" where
  "shl_int x leftShift =
     (if unat leftShift < 32 then Inr (push_bit (unat leftShift) x)
      else Inl ShiftCountOutOfRange)"

text \<open>
  \<^verbatim>\<open>
  const unsigned leftShift = 16 - bitsPerSample;
  for (unsigned i = 0; i < nSamples; ++i)
      for (unsigned c = 0; c < nChannels; ++c)
          *dst++ = src[c][i] << leftShift;
  \<close>
  The subtraction is on \<^verbatim>\<open>unsigned\<close> and wraps; the store to \<^verbatim>\<open>short\<close> keeps the
  low 16 bits.
\<close>

definition copyTo16Signed ::
  "FLAC__int32 list list \<Rightarrow> unsigned \<Rightarrow> unsigned \<Rightarrow> unsigned \<Rightarrow> fault + short list" where
  "copyTo16Signed src nSamples nChannels bitsPerSample =
     (let leftShift = 16 - bitsPerSample in
      collect (concat (map (\<lambda>i. map (\<lambda>c.
        (case sample_at src c i of
           Inl e \<Rightarrow> Inl e
         | Inr x \<Rightarrow> (case shl_int x leftShift of
                       Inl e \<Rightarrow> Inl e
                     | Inr y \<Rightarrow> Inr (ucast y :: short))))
        [0..<unat nChannels]) [0..<unat nSamples])))"

text \<open>
  \<^verbatim>\<open>
  const unsigned leftShift = 32 - bitsPerSample;
  ... *dst++ = float_from_i32(src[c][i] << leftShift);
  \<close>
  \<^verbatim>\<open>float_from_i32\<close> belongs to audio_utils and is a parameter here.
\<close>

definition copyToFloat ::
  "(FLAC__int32 \<Rightarrow> real) \<Rightarrow> FLAC__int32 list list \<Rightarrow> unsigned \<Rightarrow> unsigned \<Rightarrow> unsigned
     \<Rightarrow> fault + real list" where
  "copyToFloat float_from_i32 src nSamples nChannels bitsPerSample =
     (let leftShift = 32 - bitsPerSample in
      collect (concat (map (\<lambda>i. map (\<lambda>c.
        (case sample_at src c i of
           Inl e \<Rightarrow> Inl e
         | Inr x \<Rightarrow> (case shl_int x leftShift of
                       Inl e \<Rightarrow> Inl e
                     | Inr y \<Rightarrow> Inr (float_from_i32 y))))
        [0..<unat nChannels]) [0..<unat nSamples])))"

subsection \<open>Data of libFLAC and of the media framework\<close>

text \<open>
  The structures of \<^verbatim>\<open>FLAC/stream_decoder.h\<close>, with the fields this file reads.
  Field names carry a prefix where two structures use the same name.
\<close>

record FLAC__StreamMetadata_StreamInfo =
  si_max_blocksize :: unsigned
  si_sample_rate :: unsigned
  si_channels :: unsigned
  si_bits_per_sample :: unsigned
  si_total_samples :: FLAC__uint64

datatype FLAC__FrameNumberType =
    FLAC__FRAME_NUMBER_TYPE_FRAME_NUMBER
  | FLAC__FRAME_NUMBER_TYPE_SAMPLE_NUMBER

record FLAC__FrameHeader =
  fh_blocksize :: unsigned
  fh_sample_rate :: unsigned
  fh_channels :: unsigned
  fh_bits_per_sample :: unsigned
  fh_number_type :: FLAC__FrameNumberType
  fh_sample_number :: FLAC__uint64

record FLAC__Frame =
  header :: FLAC__FrameHeader

text \<open>
  \<^verbatim>\<open>FLAC__StreamMetadata\<close> is a tagged union. A Vorbis comment entry is its bytes, or
  \<open>None\<close> for a null \<^verbatim>\<open>entry\<close> pointer; a picture is its \<^verbatim>\<open>data\<close>.
\<close>

datatype FLAC__StreamMetadata =
    FLAC__METADATA_TYPE_STREAMINFO FLAC__StreamMetadata_StreamInfo
  | FLAC__METADATA_TYPE_VORBIS_COMMENT "byte list option list"
  | FLAC__METADATA_TYPE_PICTURE "byte list"
  | FLAC__METADATA_TYPE_OTHER nat

datatype FLAC__StreamDecoderReadStatus =
    FLAC__STREAM_DECODER_READ_STATUS_CONTINUE
  | FLAC__STREAM_DECODER_READ_STATUS_END_OF_STREAM
  | FLAC__STREAM_DECODER_READ_STATUS_ABORT

datatype FLAC__StreamDecoderWriteStatus =
    FLAC__STREAM_DECODER_WRITE_STATUS_CONTINUE
  | FLAC__STREAM_DECODER_WRITE_STATUS_ABORT

datatype FLAC__StreamDecoderLengthStatus =
    FLAC__STREAM_DECODER_LENGTH_STATUS_OK
  | FLAC__STREAM_DECODER_LENGTH_STATUS_UNSUPPORTED

text \<open>
  \<^verbatim>\<open>status_t\<close> is an \<^verbatim>\<open>int\<close>; \<^verbatim>\<open>OK\<close> and \<^verbatim>\<open>NO_INIT\<close> have the values of
  \<^verbatim>\<open>utils/Errors.h\<close>. \<^verbatim>\<open>media_status_t\<close> is the enum of the NDK.
\<close>

type_synonym status_t = int

definition OK :: status_t where
  "OK = 0"

definition NO_INIT :: status_t where
  "NO_INIT = - 19"

datatype media_status_t =
    AMEDIA_OK
  | AMEDIA_ERROR_UNKNOWN
  | AMEDIA_ERROR_INVALID_PARAMETER
  | AMEDIA_ERROR_END_OF_STREAM

text \<open>An \<^verbatim>\<open>AMediaFormat\<close> is a map from its keys to typed values.\<close>

datatype AMediaFormat_key =
    AMEDIAFORMAT_KEY_MIME
  | AMEDIAFORMAT_KEY_CHANNEL_COUNT
  | AMEDIAFORMAT_KEY_SAMPLE_RATE
  | AMEDIAFORMAT_KEY_BITS_PER_SAMPLE
  | AMEDIAFORMAT_KEY_DURATION
  | AMEDIAFORMAT_KEY_PCM_ENCODING
  | AMEDIAFORMAT_KEY_ALBUMART
  | AMEDIAFORMAT_KEY_OTHER string

datatype AMediaFormat_value =
    String string
  | Int32 "32 word"
  | Int64 "64 word"
  | Buffer "byte list"

type_synonym AMediaFormat = "AMediaFormat_key \<rightharpoonup> AMediaFormat_value"

definition AMediaFormat_new :: AMediaFormat where
  "AMediaFormat_new = Map.empty"

definition MEDIA_MIMETYPE_AUDIO_RAW :: string where
  "MEDIA_MIMETYPE_AUDIO_RAW = ''audio/raw''"

definition MEDIA_MIMETYPE_AUDIO_FLAC :: string where
  "MEDIA_MIMETYPE_AUDIO_FLAC = ''audio/flac''"



definition AID_MEDIA :: "32 word" where
  "AID_MEDIA = 1013"

text \<open>\<^verbatim>\<open>kMaxChannels = FCC_8\<close>.\<close>

definition kMaxChannels :: unsigned where
  "kMaxChannels = 8"

subsection \<open>What lies outside the file\<close>

text \<open>
  The collaborators of the parser are parameters:
  \<^item> \<open>readAt off size\<close> is \<^verbatim>\<open>mDataSource->readAt(off, buffer, size)\<close>: the number of
    bytes read or a negative error, and the bytes it stores in the buffer (as many as
    it reports);
  \<^item> \<open>getSize\<close> is the size \<^verbatim>\<open>mDataSource->getSize\<close> reports, \<open>None\<close> when it does
    not return \<^verbatim>\<open>OK\<close>;
  \<^item> \<open>parseVorbisComment\<close> is the tag parser of MetaDataUtils;
  \<^item> \<open>float_from_i32\<close> is the conversion of audio_utils.
\<close>

record DataSourceHelper =
  readAt :: "64 word \<Rightarrow> size_t \<Rightarrow> int \<times> byte list"
  getSize :: "64 word option"

record env =
  mDataSource :: DataSourceHelper
  parseVorbisComment :: "AMediaFormat \<Rightarrow> byte list \<Rightarrow> AMediaFormat"
  float_from_i32 :: "FLAC__int32 \<Rightarrow> real"

text \<open>
  The decoder of libFLAC is driven through its callbacks. One call into the decoder
  (\<^verbatim>\<open>process_until_end_of_metadata\<close>, \<^verbatim>\<open>process_single\<close>, \<^verbatim>\<open>seek_absolute\<close>) is
  given by the callbacks it makes, in order, and by the value it returns when no callback
  stops it.
\<close>

datatype engine_call =
    ReadCb size_t
  | SeekCb FLAC__uint64
  | TellCb
  | LengthCb
  | EofCb
  | WriteCb FLAC__Frame "FLAC__int32 list list"
  | MetadataCb FLAC__StreamMetadata
  | ErrorCb int

record engine_step =
  es_calls :: "engine_call list"
  es_result :: bool

text \<open>
  Setting the decoder up: whether \<^verbatim>\<open>FLAC__stream_decoder_new\<close> returns a decoder,
  whether \<^verbatim>\<open>FLAC__stream_decoder_init_stream\<close> returns
  \<^verbatim>\<open>FLAC__STREAM_DECODER_INIT_STATUS_OK\<close>, and the metadata phase.
\<close>

record engine_setup =
  decoder_new_ok :: bool
  init_stream_ok :: bool
  until_end_of_metadata :: engine_step

text \<open>
  A \<^verbatim>\<open>MediaBufferGroup\<close> holds the one buffer \<^verbatim>\<open>allocateBuffers\<close> adds; a
  \<^verbatim>\<open>MediaBufferBase\<close> is its samples, the range set on it and its two metadata keys.
\<close>

record MediaBufferGroup =
  capacity :: size_t

datatype pcm_data =
    Pcm16 "short list"
  | PcmFloat "real list"

record MediaBufferBase =
  data :: pcm_data
  range_offset :: size_t
  range_length :: size_t
  kKeyTime :: int64_t
  kKeyIsSyncFrame :: "32 word"

subsection \<open>\<^verbatim>\<open>FLACParser\<close>\<close>

record FLACParser =
  mOutputFloat :: bool
  mFileMetadata :: "AMediaFormat option"
  mTrackMetadata :: "AMediaFormat option"
  mInitCheck :: bool
  mMaxBufferSize :: size_t
  mGroup :: "MediaBufferGroup option"
  mDecoder :: bool
  mCurrentPos :: "64 word"
  mEOF :: bool
  mStreamInfo :: FLAC__StreamMetadata_StreamInfo
  mStreamInfoValid :: bool
  mWriteRequested :: bool
  mWriteCompleted :: bool
  mWriteHeader :: FLAC__FrameHeader
  mWriteBuffer :: "FLAC__int32 list list"
  mErrorStatus :: int

definition getMaxBlockSize :: "FLACParser \<Rightarrow> unsigned" where
  "getMaxBlockSize s = si_max_blocksize (mStreamInfo s)"

definition getSampleRate :: "FLACParser \<Rightarrow> unsigned" where
  "getSampleRate s = si_sample_rate (mStreamInfo s)"

definition getChannels :: "FLACParser \<Rightarrow> unsigned" where
  "getChannels s = si_channels (mStreamInfo s)"

definition getBitsPerSample :: "FLACParser \<Rightarrow> unsigned" where
  "getBitsPerSample s = si_bits_per_sample (mStreamInfo s)"

definition getTotalSamples :: "FLACParser \<Rightarrow> FLAC__uint64" where
  "getTotalSamples s = si_total_samples (mStreamInfo s)"

text \<open>\<^verbatim>\<open>mOutputFloat ? sizeof(float) : sizeof(int16_t)\<close>\<close>

definition getOutputSampleSize :: "FLACParser \<Rightarrow> size_t" where
  "getOutputSampleSize s = (if mOutputFloat s then 4 else 2)"

text \<open>
  \<^verbatim>\<open>initCheck\<close> returns the \<^verbatim>\<open>bool\<close> member as a \<^verbatim>\<open>status_t\<close>: 0 or 1.
\<close>

definition initCheck :: "FLACParser \<Rightarrow> status_t" where
  "initCheck s = (if mInitCheck s then 1 else 0)"

subsection \<open>The callbacks\<close>

text \<open>
  \<^verbatim>\<open>readCallback\<close>: the status, the byte count stored in \<^verbatim>\<open>*bytes\<close>, and the parser.
\<close>

definition readCallback ::
  "env \<Rightarrow> size_t \<Rightarrow> FLACParser
     \<Rightarrow> fault + (FLAC__StreamDecoderReadStatus \<times> size_t \<times> FLACParser)" where
  "readCallback env requested s =
     (let actual = fst (readAt (mDataSource env) (mCurrentPos s) requested) in
      if 0 > actual then Inr (FLAC__STREAM_DECODER_READ_STATUS_ABORT, 0, s)
      else if 0 = actual then
        Inr (FLAC__STREAM_DECODER_READ_STATUS_END_OF_STREAM, 0, s\<lparr>mEOF := True\<rparr>)
      else if actual \<le> uint requested then
        Inr (FLAC__STREAM_DECODER_READ_STATUS_CONTINUE, word_of_int actual,
             s\<lparr>mCurrentPos := mCurrentPos s + word_of_int actual\<rparr>)
      else Inl AssertFailed)"

definition seekCallback :: "FLAC__uint64 \<Rightarrow> FLACParser \<Rightarrow> FLACParser" where
  "seekCallback absolute_byte_offset s =
     s\<lparr>mCurrentPos := absolute_byte_offset, mEOF := False\<rparr>"

definition tellCallback :: "FLACParser \<Rightarrow> FLAC__uint64" where
  "tellCallback s = mCurrentPos s"

definition lengthCallback ::
  "env \<Rightarrow> FLAC__StreamDecoderLengthStatus \<times> FLAC__uint64 option" where
  "lengthCallback env =
     (case getSize (mDataSource env) of
        Some stream_length \<Rightarrow> (FLAC__STREAM_DECODER_LENGTH_STATUS_OK, Some stream_length)
      | None \<Rightarrow> (FLAC__STREAM_DECODER_LENGTH_STATUS_UNSUPPORTED, None))"

definition eofCallback :: "FLACParser \<Rightarrow> bool" where
  "eofCallback s = mEOF s"

text \<open>
  \<^verbatim>\<open>memmove(mWriteBuffer, buffer, sizeof(...) * getChannels())\<close> overwrites the first
  \<^verbatim>\<open>getChannels()\<close> plane pointers.
\<close>

definition writeCallback ::
  "FLAC__Frame \<Rightarrow> FLAC__int32 list list \<Rightarrow> FLACParser
     \<Rightarrow> FLAC__StreamDecoderWriteStatus \<times> FLACParser" where
  "writeCallback frame buffer s =
     (if mWriteRequested s then
        (FLAC__STREAM_DECODER_WRITE_STATUS_CONTINUE,
         s\<lparr>mWriteRequested := False,
           mWriteHeader := header frame,
           mWriteBuffer := take (unat (getChannels s)) buffer
                             @ drop (unat (getChannels s)) (mWriteBuffer s),
           mWriteCompleted := True\<rparr>)
      else (FLAC__STREAM_DECODER_WRITE_STATUS_ABORT, s))"

text \<open>
  The body of the loop over \<^verbatim>\<open>vc->comments\<close>:
  \<^verbatim>\<open>if (mFileMetadata != 0 && vce->entry != NULL) parseVorbisComment(...)\<close>.
\<close>

definition vorbis_comment_entry :: "env \<Rightarrow> byte list option \<Rightarrow> FLACParser \<Rightarrow> FLACParser" where
  "vorbis_comment_entry env vce s =
     (case mFileMetadata s of
        None \<Rightarrow> s
      | Some m \<Rightarrow>
          (case vce of
             None \<Rightarrow> s
           | Some entry \<Rightarrow> s\<lparr>mFileMetadata := Some (parseVorbisComment env m entry)\<rparr>))"

definition metadataCallback :: "env \<Rightarrow> FLAC__StreamMetadata \<Rightarrow> FLACParser \<Rightarrow> FLACParser" where
  "metadataCallback env metadata s =
     (case metadata of
        FLAC__METADATA_TYPE_STREAMINFO stream_info \<Rightarrow>
          (if \<not> mStreamInfoValid s
           then s\<lparr>mStreamInfo := stream_info, mStreamInfoValid := True\<rparr>
           else s)
      | FLAC__METADATA_TYPE_VORBIS_COMMENT comments \<Rightarrow>
          fold (vorbis_comment_entry env) comments s
      | FLAC__METADATA_TYPE_PICTURE p \<Rightarrow>
          (case mFileMetadata s of
             None \<Rightarrow> s
           | Some m \<Rightarrow> s\<lparr>mFileMetadata := Some (m(AMEDIAFORMAT_KEY_ALBUMART \<mapsto> Buffer p))\<rparr>)
      | FLAC__METADATA_TYPE_OTHER n \<Rightarrow> s)"

definition errorCallback :: "int \<Rightarrow> FLACParser \<Rightarrow> FLACParser" where
  "errorCallback status s = s\<lparr>mErrorStatus := status\<rparr>"

subsection \<open>One call into the decoder\<close>

text \<open>
  Modelled from the spec: the decoder is libFLAC, outside this file. It makes its
  callbacks in order; a read or a push that answers with the abort status ends the call,
  which then returns false (spec 4.1: "negative/error \<Rightarrow> abort signal", "signal failure
  for that push, causing the drive step to abort"); otherwise the call returns the
  decoder's own result. The result is \<open>Inl\<close> when a callback does not return.
\<close>

fun drive :: "env \<Rightarrow> engine_call list \<Rightarrow> bool \<Rightarrow> FLACParser \<Rightarrow> fault + (bool \<times> FLACParser)" where
  "drive env [] result s = Inr (result, s)"
| "drive env (ReadCb requested # calls) result s =
     (case readCallback env requested s of
        Inl e \<Rightarrow> Inl e
      | Inr (status, bytes, s') \<Rightarrow>
          if status = FLAC__STREAM_DECODER_READ_STATUS_ABORT then Inr (False, s')
          else drive env calls result s')"
| "drive env (SeekCb absolute_byte_offset # calls) result s =
     drive env calls result (seekCallback absolute_byte_offset s)"
| "drive env (TellCb # calls) result s = drive env calls result s"
| "drive env (LengthCb # calls) result s = drive env calls result s"
| "drive env (EofCb # calls) result s = drive env calls result s"
| "drive env (WriteCb frame buffer # calls) result s =
     (case writeCallback frame buffer s of
        (status, s') \<Rightarrow>
          if status = FLAC__STREAM_DECODER_WRITE_STATUS_ABORT then Inr (False, s')
          else drive env calls result s')"
| "drive env (MetadataCb metadata # calls) result s =
     drive env calls result (metadataCallback env metadata s)"
| "drive env (ErrorCb status # calls) result s =
     drive env calls result (errorCallback status s)"

definition drive_step :: "env \<Rightarrow> engine_step \<Rightarrow> FLACParser \<Rightarrow> fault + (bool \<times> FLACParser)" where
  "drive_step env step s = drive env (es_calls step) (es_result step) s"

subsection \<open>\<^verbatim>\<open>FLACParser::init\<close> and the constructor\<close>

definition supported_bits_per_sample :: "unsigned \<Rightarrow> bool" where
  "supported_bits_per_sample b = (b = 8 \<or> b = 16 \<or> b = 24)"

definition supported_sample_rate :: "unsigned \<Rightarrow> bool" where
  "supported_sample_rate r =
     (r = 8000 \<or> r = 11025 \<or> r = 12000 \<or> r = 16000 \<or> r = 22050 \<or> r = 24000
      \<or> r = 32000 \<or> r = 44100 \<or> r = 48000 \<or> r = 88200 \<or> r = 96000)"

text \<open>
  The track metadata \<^verbatim>\<open>init\<close> publishes. The duration is computed in
  \<^verbatim>\<open>FLAC__uint64\<close>: \<^verbatim>\<open>(getTotalSamples() * 1000000LL) / getSampleRate()\<close>.
\<close>

definition populate_track_metadata :: "FLACParser \<Rightarrow> AMediaFormat \<Rightarrow> AMediaFormat" where
  "populate_track_metadata s m =
     m(AMEDIAFORMAT_KEY_MIME \<mapsto> String MEDIA_MIMETYPE_AUDIO_RAW,
       AMEDIAFORMAT_KEY_CHANNEL_COUNT \<mapsto> Int32 (getChannels s),
       AMEDIAFORMAT_KEY_SAMPLE_RATE \<mapsto> Int32 (getSampleRate s),
       AMEDIAFORMAT_KEY_BITS_PER_SAMPLE \<mapsto> Int32 (getBitsPerSample s),
       AMEDIAFORMAT_KEY_DURATION \<mapsto>
         Int64 ((getTotalSamples s * 1000000) div ucast (getSampleRate s)))"

definition init :: "env \<Rightarrow> engine_setup \<Rightarrow> FLACParser \<Rightarrow> fault + (status_t \<times> FLACParser)" where
  "init env eng s0 =
     (if \<not> decoder_new_ok eng then Inr (NO_INIT, s0)
      else if \<not> init_stream_ok eng then Inr (NO_INIT, s0\<lparr>mDecoder := True\<rparr>)
      else
        (case drive_step env (until_end_of_metadata eng) (s0\<lparr>mDecoder := True\<rparr>) of
           Inl e \<Rightarrow> Inl e
         | Inr (ok, s) \<Rightarrow>
             if \<not> ok then Inr (NO_INIT, s)
             else if mStreamInfoValid s then
               (if getChannels s = 0 \<or> getChannels s > kMaxChannels then Inr (NO_INIT, s)
                else if \<not> supported_bits_per_sample (getBitsPerSample s) then Inr (NO_INIT, s)
                else if \<not> supported_sample_rate (getSampleRate s) then Inr (NO_INIT, s)
                else
                  (let s1 = (case mTrackMetadata s of
                               None \<Rightarrow> s
                             | Some m \<Rightarrow>
                                 s\<lparr>mTrackMetadata := Some (populate_track_metadata s m)\<rparr>);
                       s2 = (case mFileMetadata s1 of
                               None \<Rightarrow> s1
                             | Some m \<Rightarrow>
                                 s1\<lparr>mFileMetadata :=
                                      Some (m(AMEDIAFORMAT_KEY_MIME \<mapsto>
                                                String MEDIA_MIMETYPE_AUDIO_FLAC))\<rparr>)
                   in Inr (OK, s2)))
             else Inr (NO_INIT, s)))"

text \<open>
  The constructor: the members as initialised, \<^verbatim>\<open>mStreamInfo\<close> and
  \<^verbatim>\<open>mWriteHeader\<close> zeroed by \<^verbatim>\<open>memset\<close>, then \<^verbatim>\<open>mInitCheck = init()\<close>, which
  stores the \<^verbatim>\<open>status_t\<close> in a \<^verbatim>\<open>bool\<close>.
\<close>

definition FLACParser_members ::
  "bool \<Rightarrow> AMediaFormat option \<Rightarrow> AMediaFormat option \<Rightarrow> FLACParser" where
  "FLACParser_members outputFloat fileMetadata trackMetadata =
     \<lparr>mOutputFloat = outputFloat,
      mFileMetadata = fileMetadata,
      mTrackMetadata = trackMetadata,
      mInitCheck = False,
      mMaxBufferSize = 0,
      mGroup = None,
      mDecoder = False,
      mCurrentPos = 0,
      mEOF = False,
      mStreamInfo = \<lparr>si_max_blocksize = 0, si_sample_rate = 0, si_channels = 0,
                      si_bits_per_sample = 0, si_total_samples = 0\<rparr>,
      mStreamInfoValid = False,
      mWriteRequested = False,
      mWriteCompleted = False,
      mWriteHeader = \<lparr>fh_blocksize = 0, fh_sample_rate = 0, fh_channels = 0,
                       fh_bits_per_sample = 0,
                       fh_number_type = FLAC__FRAME_NUMBER_TYPE_FRAME_NUMBER,
                       fh_sample_number = 0\<rparr>,
      mWriteBuffer = [],
      mErrorStatus = - 1\<rparr>"

definition FLACParser_new ::
  "env \<Rightarrow> engine_setup \<Rightarrow> bool \<Rightarrow> AMediaFormat option \<Rightarrow> AMediaFormat option
     \<Rightarrow> fault + FLACParser" where
  "FLACParser_new env eng outputFloat fileMetadata trackMetadata =
     (case init env eng (FLACParser_members outputFloat fileMetadata trackMetadata) of
        Inl e \<Rightarrow> Inl e
      | Inr (status, s) \<Rightarrow> Inr (s\<lparr>mInitCheck := (status \<noteq> 0)\<rparr>))"

subsection \<open>Media buffers and \<^verbatim>\<open>readBuffer\<close>\<close>

text \<open>
  \<^verbatim>\<open>getMaxBlockSize() * getChannels() * getOutputSampleSize()\<close>: the first product is
  on \<^verbatim>\<open>unsigned\<close>, the second on \<^verbatim>\<open>size_t\<close>.
\<close>

definition allocateBuffers :: "FLACParser \<Rightarrow> fault + FLACParser" where
  "allocateBuffers s =
     (case mGroup s of
        Some g \<Rightarrow> Inl CheckFailed
      | None \<Rightarrow>
          (let maxBufferSize =
                 ucast (getMaxBlockSize s * getChannels s) * getOutputSampleSize s
           in Inr (s\<lparr>mMaxBufferSize := maxBufferSize,
                     mGroup := Some \<lparr>capacity = maxBufferSize\<rparr>\<rparr>)))"

definition releaseBuffers :: "FLACParser \<Rightarrow> fault + FLACParser" where
  "releaseBuffers s =
     (case mGroup s of
        None \<Rightarrow> Inl CheckFailed
      | Some g \<Rightarrow> Inr (s\<lparr>mGroup := None\<rparr>))"

text \<open>
  What is outside the parser during one \<^verbatim>\<open>readBuffer\<close>: what the decoder does on
  \<^verbatim>\<open>FLAC__stream_decoder_process_single\<close> and on
  \<^verbatim>\<open>FLAC__stream_decoder_seek_absolute(mDecoder, sample)\<close>, and the status of
  \<^verbatim>\<open>mGroup->acquire_buffer\<close>.
\<close>

record externals =
  process_single :: engine_step
  seek_absolute :: "FLAC__uint64 \<Rightarrow> engine_step"
  acquire_buffer :: status_t

text \<open>
  The frame checks of \<^verbatim>\<open>readBuffer\<close>, in the source's words:
  \<^verbatim>\<open>blocksize == 0 || blocksize > getMaxBlockSize()\<close> and the three comparisons with
  the stream parameters.
\<close>

definition invalid_blocksize :: "FLACParser \<Rightarrow> bool" where
  "invalid_blocksize s =
     (fh_blocksize (mWriteHeader s) = 0 \<or> fh_blocksize (mWriteHeader s) > getMaxBlockSize s)"

definition changed_parameters :: "FLACParser \<Rightarrow> bool" where
  "changed_parameters s =
     (fh_sample_rate (mWriteHeader s) \<noteq> getSampleRate s \<or>
      fh_channels (mWriteHeader s) \<noteq> getChannels s \<or>
      fh_bits_per_sample (mWriteHeader s) \<noteq> getBitsPerSample s)"

text \<open>
  The copy into the media buffer and its metadata, after a buffer was acquired. A copy
  of more bytes than the buffer holds is \<open>BufferOverrun\<close>. The time stamp
  \<^verbatim>\<open>(1000000LL * sampleNumber) / getSampleRate()\<close> is an unsigned 64-bit quotient;
  the division has no guard of its own, so a sample rate of 0 is \<open>DivisionByZero\<close>.
\<close>

definition fill_buffer :: "env \<Rightarrow> MediaBufferGroup \<Rightarrow> FLACParser \<Rightarrow> fault + MediaBufferBase" where
  "fill_buffer env g s =
     (let blocksize = fh_blocksize (mWriteHeader s);
          bufferSize = ucast (blocksize * getChannels s) * getOutputSampleSize s
      in
        if \<not> bufferSize \<le> mMaxBufferSize s then Inl CheckFailed
        else if unat (capacity g)
                  < unat blocksize * unat (getChannels s) * unat (getOutputSampleSize s)
        then Inl BufferOverrun
        else
          (case (if mOutputFloat s then
                   (case copyToFloat (float_from_i32 env) (mWriteBuffer s) blocksize
                           (getChannels s) (getBitsPerSample s) of
                      Inl e \<Rightarrow> Inl e
                    | Inr dst \<Rightarrow> Inr (PcmFloat dst))
                 else
                   (case copyTo16Signed (mWriteBuffer s) blocksize
                           (getChannels s) (getBitsPerSample s) of
                      Inl e \<Rightarrow> Inl e
                    | Inr dst \<Rightarrow> Inr (Pcm16 dst))) of
             Inl e \<Rightarrow> Inl e
           | Inr samples \<Rightarrow>
               if fh_number_type (mWriteHeader s) \<noteq> FLAC__FRAME_NUMBER_TYPE_SAMPLE_NUMBER
               then Inl CheckFailed
               else if getSampleRate s = 0 then Inl DivisionByZero
               else
                 Inr \<lparr>data = samples,
                      range_offset = 0,
                      range_length = bufferSize,
                      kKeyTime = (1000000 * fh_sample_number (mWriteHeader s))
                                   div ucast (getSampleRate s),
                      kKeyIsSyncFrame = 1\<rparr>))"

text \<open>
  \<^verbatim>\<open>readBuffer(doSeek, sample)\<close>: \<open>None\<close> is the \<^verbatim>\<open>NULL\<close> return.
\<close>

definition readBuffer ::
  "env \<Rightarrow> externals \<Rightarrow> bool \<Rightarrow> FLAC__uint64 \<Rightarrow> FLACParser
     \<Rightarrow> fault + (MediaBufferBase option \<times> FLACParser)" where
  "readBuffer env ext doSeek sample s0 =
     (case drive_step env (if doSeek then seek_absolute ext sample else process_single ext)
             (s0\<lparr>mWriteRequested := True, mWriteCompleted := False\<rparr>) of
        Inl e \<Rightarrow> Inl e
      | Inr (ok, s) \<Rightarrow>
          if \<not> ok then Inr (None, s)
          else if \<not> mWriteCompleted s then Inr (None, s)
          else if invalid_blocksize s then Inr (None, s)
          else if changed_parameters s then Inr (None, s)
          else
            (case mGroup s of
               None \<Rightarrow> Inl CheckFailed
             | Some g \<Rightarrow>
                 if acquire_buffer ext \<noteq> OK then Inr (None, s)
                 else
                   (case fill_buffer env g s of
                      Inl e \<Rightarrow> Inl e
                    | Inr buffer \<Rightarrow> Inr (Some buffer, s))))"

subsection \<open>The output-format policy\<close>

text \<open>
  \<^verbatim>\<open>bitsPerSample > 16 && AIBinder_getCallingUid() == AID_MEDIA\<close>. The parameter is an
  \<^verbatim>\<open>int\<close>; the calling UID is that of the process making the call.
\<close>

definition shouldExtractorOutputFloat :: "32 word \<Rightarrow> 32 word \<Rightarrow> bool" where
  "shouldExtractorOutputFloat callingUid bitsPerSample =
     (16 < sint bitsPerSample \<and> callingUid = AID_MEDIA)"

text \<open>
  Modelled from the spec: \<^verbatim>\<open>AMediaFormat_copy\<close> is the NDK's and not part of this
  file. The metadata queries answer with the stored metadata (spec 4.3 and 6), so a
  copy makes the destination equal to the source; a null format is refused.
\<close>

definition AMediaFormat_copy ::
  "AMediaFormat option \<Rightarrow> AMediaFormat option \<Rightarrow> media_status_t \<times> AMediaFormat option" where
  "AMediaFormat_copy to from =
     (case to of
        None \<Rightarrow> (AMEDIA_ERROR_INVALID_PARAMETER, to)
      | Some t \<Rightarrow>
          (case from of
             None \<Rightarrow> (AMEDIA_ERROR_INVALID_PARAMETER, to)
           | Some f \<Rightarrow> (AMEDIA_OK, Some f)))"


subsection \<open>\<^verbatim>\<open>FLACSource\<close>\<close>

record FLACSource =
  source_mTrackMetadata :: "AMediaFormat option"
  source_mOutputFloat :: bool
  source_mParser :: FLACParser
  source_mInitCheck :: bool
  mStarted :: bool

text \<open>
  The track builds a parser of its own, without metadata pointers;
  \<^verbatim>\<open>mInitCheck(mParser->initCheck())\<close> stores a \<^verbatim>\<open>status_t\<close> in a \<^verbatim>\<open>bool\<close>.
\<close>

definition FLACSource_new ::
  "env \<Rightarrow> engine_setup \<Rightarrow> AMediaFormat option \<Rightarrow> bool \<Rightarrow> fault + FLACSource" where
  "FLACSource_new env eng trackMetadata outputFloat =
     (case FLACParser_new env eng outputFloat None None of
        Inl e \<Rightarrow> Inl e
      | Inr p \<Rightarrow>
          Inr \<lparr>source_mTrackMetadata = trackMetadata,
               source_mOutputFloat = outputFloat,
               source_mParser = p,
               source_mInitCheck = (initCheck p \<noteq> 0),
               mStarted = False\<rparr>)"

definition start :: "FLACSource \<Rightarrow> fault + (media_status_t \<times> FLACSource)" where
  "start src =
     (if mStarted src then Inl CheckFailed
      else
        (case allocateBuffers (source_mParser src) of
           Inl e \<Rightarrow> Inl e
         | Inr p \<Rightarrow> Inr (AMEDIA_OK, src\<lparr>source_mParser := p, mStarted := True\<rparr>)))"

definition stop :: "FLACSource \<Rightarrow> fault + (media_status_t \<times> FLACSource)" where
  "stop src =
     (if \<not> mStarted src then Inl CheckFailed
      else
        (case releaseBuffers (source_mParser src) of
           Inl e \<Rightarrow> Inl e
         | Inr p \<Rightarrow> Inr (AMEDIA_OK, src\<lparr>source_mParser := p, mStarted := False\<rparr>)))"


text \<open>
  \<^verbatim>\<open>ReadOptions\<close>: the seek time when a seek was set (the seek mode is not used).
\<close>

record ReadOptions =
  getSeekTo :: "int64_t option"

text \<open>
  The seek target of \<^verbatim>\<open>read\<close>.
  \<^verbatim>\<open>(seekTimeUs * mParser->getSampleRate()) / 1000000LL\<close> is computed in
  \<^verbatim>\<open>int64_t\<close>, the rate converted from \<^verbatim>\<open>unsigned\<close>; both operands of the division
  are positive there. The quotient is stored in a \<^verbatim>\<open>FLAC__uint64\<close> and compared
  unsigned with the total.
\<close>

definition seek_sample :: "FLACParser \<Rightarrow> int64_t \<Rightarrow> fault + FLAC__uint64" where
  "seek_sample p seekTimeUs =
     (if sint seekTimeUs \<le> 0 then Inr 0
      else if 2 ^ 63 \<le> sint seekTimeUs * uint (getSampleRate p) then Inl SignedOverflow
      else
        (let sample = word_of_int ((sint seekTimeUs * uint (getSampleRate p)) div 1000000)
         in Inr (if sample \<ge> getTotalSamples p then getTotalSamples p else sample)))"

definition read ::
  "env \<Rightarrow> externals \<Rightarrow> ReadOptions option \<Rightarrow> FLACSource
     \<Rightarrow> fault + (MediaBufferBase option \<times> media_status_t \<times> FLACSource)" where
  "read env ext options src =
     (case (case (case options of None \<Rightarrow> None | Some ro \<Rightarrow> getSeekTo ro) of
              Some seekTimeUs \<Rightarrow>
                (case seek_sample (source_mParser src) seekTimeUs of
                   Inl e \<Rightarrow> Inl e
                 | Inr sample \<Rightarrow> readBuffer env ext True sample (source_mParser src))
            | None \<Rightarrow> readBuffer env ext False 0 (source_mParser src)) of
        Inl e \<Rightarrow> Inl e
      | Inr (buffer, p) \<Rightarrow>
          Inr (buffer,
               (if buffer \<noteq> None then AMEDIA_OK else AMEDIA_ERROR_END_OF_STREAM),
               src\<lparr>source_mParser := p\<rparr>))"

subsection \<open>\<^verbatim>\<open>FLACExtractor\<close>\<close>

text \<open>
  The extractor owns the two formats and hands them to its parser, which fills them
  during \<^verbatim>\<open>init\<close> only; the record keeps them as the parser left them.
\<close>

record FLACExtractor =
  extractor_mParser :: FLACParser
  extractor_mInitCheck :: status_t
  extractor_mFileMetadata :: "AMediaFormat option"
  extractor_mTrackMetadata :: "AMediaFormat option"

definition FLACExtractor_new :: "env \<Rightarrow> engine_setup \<Rightarrow> fault + FLACExtractor" where
  "FLACExtractor_new env eng =
     (case FLACParser_new env eng False (Some AMediaFormat_new) (Some AMediaFormat_new) of
        Inl e \<Rightarrow> Inl e
      | Inr p \<Rightarrow>
          Inr \<lparr>extractor_mParser = p,
               extractor_mInitCheck = initCheck p,
               extractor_mFileMetadata = mFileMetadata p,
               extractor_mTrackMetadata = mTrackMetadata p\<rparr>)"

definition countTracks :: "FLACExtractor \<Rightarrow> nat" where
  "countTracks ex = (if extractor_mInitCheck ex = OK then 1 else 0)"

text \<open>
  \<^verbatim>\<open>getTrack\<close>: \<open>None\<close> is the \<^verbatim>\<open>NULL\<close> return. The new track runs a decoder of
  its own over the same data source.
\<close>

definition getTrack ::
  "env \<Rightarrow> engine_setup \<Rightarrow> 32 word \<Rightarrow> nat \<Rightarrow> FLACExtractor \<Rightarrow> fault + FLACSource option" where
  "getTrack env eng callingUid index ex =
     (if extractor_mInitCheck ex \<noteq> OK \<or> index > 0 then Inr None
      else
        (case FLACSource_new env eng (extractor_mTrackMetadata ex)
                (shouldExtractorOutputFloat callingUid
                   (getBitsPerSample (extractor_mParser ex))) of
           Inl e \<Rightarrow> Inl e
         | Inr src \<Rightarrow> Inr (Some src)))"


definition getMetaData ::
  "AMediaFormat option \<Rightarrow> FLACExtractor \<Rightarrow> media_status_t \<times> AMediaFormat option" where
  "getMetaData meta ex = AMediaFormat_copy meta (extractor_mFileMetadata ex)"

subsection \<open>The sniffer\<close>

text \<open>\<^verbatim>\<open>"fLaC\0\0\0\042"\<close>: the signature word, then the header of the STREAMINFO block.\<close>

definition flac_magic :: "byte list" where
  "flac_magic = [0x66, 0x4C, 0x61, 0x43, 0x00, 0x00, 0x00, 0x22]"

text \<open>
  \<^verbatim>\<open>SniffFLAC(source, confidence)\<close>: the result and the value of \<^verbatim>\<open>*confidence\<close>
  afterwards. \<^verbatim>\<open>memcmp\<close> runs only when the read returned 8, and then compares the 8
  bytes the read stored in \<^verbatim>\<open>header\<close> (here \<open>hdr\<close>).
\<close>

definition SniffFLAC :: "DataSourceHelper \<Rightarrow> real \<Rightarrow> bool \<times> real" where
  "SniffFLAC source confidence =
     (case readAt source 0 8 of
        (n, hdr) \<Rightarrow>
          if n \<noteq> 8 \<or> hdr \<noteq> flac_magic then (False, confidence)
          else (True, 0.5))"

text \<open>
  Modelled from the spec: the byte source behind \<^verbatim>\<open>DataSourceHelper\<close> is not part
  of this file. A byte stream answers a read at an offset with the bytes it has from
  there, at most as many as asked for (spec 6: "readAt(offset, buffer, maxBytes) ->
  bytesReadOrError"), and knows its size.
\<close>

definition byte_stream :: "byte list \<Rightarrow> DataSourceHelper" where
  "byte_stream bytes =
     \<lparr>readAt = (\<lambda>off size.
                  (int (length (take (unat size) (drop (unat off) bytes))),
                   take (unat size) (drop (unat off) bytes))),
      getSize = Some (word_of_nat (length bytes))\<rparr>"

subsection \<open>Notions used to state the properties\<close>

text \<open>
  The stream-parameters block of a metadata phase: the first STREAMINFO block among the
  metadata callbacks the decoder makes.
\<close>

fun first_STREAMINFO :: "engine_call list \<Rightarrow> FLAC__StreamMetadata_StreamInfo option" where
  "first_STREAMINFO [] = None"
| "first_STREAMINFO (MetadataCb (FLAC__METADATA_TYPE_STREAMINFO stream_info) # calls) =
     Some stream_info"
| "first_STREAMINFO (c # calls) = first_STREAMINFO calls"

text \<open>The members no callback writes, and whether file metadata is collected.\<close>

definition callback_frame ::
  "FLACParser \<Rightarrow> bool \<times> AMediaFormat option \<times> bool \<times> size_t \<times> MediaBufferGroup option
     \<times> bool \<times> bool" where
  "callback_frame s =
     (mOutputFloat s, mTrackMetadata s, mInitCheck s, mMaxBufferSize s, mGroup s,
      mDecoder s, mFileMetadata s = None)"

text \<open>The members the decoder-facing callbacks write, but for the file metadata.\<close>

definition callback_state ::
  "FLACParser \<Rightarrow> FLAC__StreamMetadata_StreamInfo \<times> bool \<times> bool \<times> bool \<times> FLAC__FrameHeader
     \<times> FLAC__int32 list list \<times> int \<times> 64 word \<times> bool" where
  "callback_state s =
     (mStreamInfo s, mStreamInfoValid s, mWriteRequested s, mWriteCompleted s,
      mWriteHeader s, mWriteBuffer s, mErrorStatus s, mCurrentPos s, mEOF s)"

text \<open>The parser as \<^verbatim>\<open>readBuffer\<close> arms it before it calls the decoder.\<close>

definition armed :: "FLACParser \<Rightarrow> FLACParser" where
  "armed s = s\<lparr>mWriteRequested := True, mWriteCompleted := False\<rparr>"

text \<open>The decoder call \<^verbatim>\<open>readBuffer(doSeek, sample)\<close> makes.\<close>

definition decoder_call :: "externals \<Rightarrow> bool \<Rightarrow> FLAC__uint64 \<Rightarrow> engine_step" where
  "decoder_call ext doSeek sample =
     (if doSeek then seek_absolute ext sample else process_single ext)"

text \<open>
  The metadata phase is done when the decoder was set up and
  \<^verbatim>\<open>FLAC__stream_decoder_process_until_end_of_metadata\<close> returned true, the parser
  starting from \<open>s0\<close>.
\<close>

definition metadata_phase_done :: "env \<Rightarrow> engine_setup \<Rightarrow> FLACParser \<Rightarrow> bool" where
  "metadata_phase_done env eng s0 =
     (decoder_new_ok eng \<and> init_stream_ok eng \<and>
      (case drive_step env (until_end_of_metadata eng) (s0\<lparr>mDecoder := True\<rparr>) of
         Inl e \<Rightarrow> False
       | Inr (ok, s) \<Rightarrow> ok))"

text \<open>Collaborators and streams for the examples.\<close>

definition example_env :: env where
  "example_env =
     \<lparr>mDataSource = byte_stream flac_magic,
      parseVorbisComment = (\<lambda>m entry. m),
      float_from_i32 = (\<lambda>x. real_of_int (sint x) / 2147483648)\<rparr>"

definition example_setup :: "FLAC__StreamMetadata_StreamInfo list \<Rightarrow> engine_setup" where
  "example_setup blocks =
     \<lparr>decoder_new_ok = True,
      init_stream_ok = True,
      until_end_of_metadata =
        \<lparr>es_calls = map (\<lambda>b. MetadataCb (FLAC__METADATA_TYPE_STREAMINFO b)) blocks,
         es_result = True\<rparr>\<rparr>"

definition example_stream_info ::
  "unsigned \<Rightarrow> unsigned \<Rightarrow> unsigned \<Rightarrow> FLAC__uint64 \<Rightarrow> FLAC__StreamMetadata_StreamInfo" where
  "example_stream_info channels bits rate total_samples =
     \<lparr>si_max_blocksize = 4096, si_sample_rate = rate, si_channels = channels,
      si_bits_per_sample = bits, si_total_samples = total_samples\<rparr>"

definition example_frame ::
  "unsigned \<Rightarrow> unsigned \<Rightarrow> unsigned \<Rightarrow> unsigned \<Rightarrow> FLAC__uint64 \<Rightarrow> FLAC__Frame" where
  "example_frame blocksize channels bits rate sample_number =
     \<lparr>header =
        \<lparr>fh_blocksize = blocksize, fh_sample_rate = rate, fh_channels = channels,
         fh_bits_per_sample = bits,
         fh_number_type = FLAC__FRAME_NUMBER_TYPE_SAMPLE_NUMBER,
         fh_sample_number = sample_number\<rparr>\<rparr>"

text \<open>
  A decoder for the examples: \<^verbatim>\<open>process_single\<close> makes the given callbacks and returns
  true; a seek to a sample at or past the total fails, as in libFLAC, and any other seek
  repositions the source and then makes the given callbacks. A buffer can be acquired.
\<close>

definition example_externals :: "FLAC__uint64 \<Rightarrow> engine_call list \<Rightarrow> externals" where
  "example_externals total_samples calls =
     \<lparr>process_single = \<lparr>es_calls = calls, es_result = True\<rparr>,
      seek_absolute =
        (\<lambda>sample.
           if sample \<ge> total_samples then \<lparr>es_calls = [], es_result = False\<rparr>
           else \<lparr>es_calls = SeekCb 42 # calls, es_result = True\<rparr>),
      acquire_buffer = OK\<rparr>"

text \<open>
  The parser of a started track over the 2-channel, 44100 Hz stream of 1000 samples with
  the given bit depth and output mode: as \<^verbatim>\<open>FLACParser_new\<close> and
  \<^verbatim>\<open>allocateBuffers\<close> leave it.
\<close>

definition example_parser :: "unsigned \<Rightarrow> bool \<Rightarrow> FLACParser" where
  "example_parser bits outputFloat =
     (FLACParser_members outputFloat None None)
       \<lparr>mDecoder := True,
        mStreamInfo := example_stream_info 2 bits 44100 1000,
        mStreamInfoValid := True,
        mMaxBufferSize := (if outputFloat then 32768 else 16384),
        mGroup := Some \<lparr>capacity = (if outputFloat then 32768 else 16384)\<rparr>\<rparr>"

definition example_source :: "unsigned \<Rightarrow> bool \<Rightarrow> FLACSource" where
  "example_source bits outputFloat =
     \<lparr>source_mTrackMetadata = Some AMediaFormat_new,
      source_mOutputFloat = outputFloat,
      source_mParser = example_parser bits outputFloat,
      source_mInitCheck = False,
      mStarted = True\<rparr>"

text \<open>Collaborators whose data source fails every read.\<close>

definition example_env_io_error :: env where
  "example_env_io_error =
     example_env\<lparr>mDataSource := \<lparr>readAt = (\<lambda>off n. (- 1, [])), getSize = None\<rparr>\<rparr>"

text \<open>
  A stream whose STREAMINFO gives no total (\<^verbatim>\<open>total_samples\<close> is 0 when the length
  is not known): the parser and the started track over the 2-channel, 16-bit, 44100 Hz
  stream, and a decoder for it. With no total to refuse a seek by, the decoder's seek
  to sample 0 repositions the source and makes the given callbacks; the example decoder
  refuses every other seek.
\<close>

definition example_parser_unknown_total :: FLACParser where
  "example_parser_unknown_total =
     (example_parser 16 False)\<lparr>mStreamInfo := example_stream_info 2 16 44100 0\<rparr>"



section \<open>Properties\<close>

subsection \<open>What a decoder call changes in the parser\<close>

lemma vorbis_fold_frame:
  "callback_frame (fold (vorbis_comment_entry env) comments s) = callback_frame s
   \<and> callback_state (fold (vorbis_comment_entry env) comments s) = callback_state s"
  by (induction comments arbitrary: s)
     (auto simp: vorbis_comment_entry_def callback_frame_def callback_state_def split: option.splits)

lemma metadataCallback_frame: "callback_frame (metadataCallback env md s) = callback_frame s"
  using vorbis_fold_frame[of env _ s]
  by (auto simp: metadataCallback_def callback_frame_def split: FLAC__StreamMetadata.splits option.splits)

lemma readCallback_frame:
  "readCallback env n s = Inr (st, b, s') \<Longrightarrow> callback_frame s' = callback_frame s"
  by (auto simp: readCallback_def callback_frame_def Let_def split: if_splits)

lemma writeCallback_frame:
  "writeCallback f b s = (st, s') \<Longrightarrow> callback_frame s' = callback_frame s"
  by (auto simp: writeCallback_def callback_frame_def split: if_splits)

lemma drive_frame:
  "drive env calls r s = Inr (ok, s') \<Longrightarrow> callback_frame s' = callback_frame s"
proof (induction env calls r s rule: drive.induct)
  case (2 env requested calls result s)
  then show ?case
    by (auto split: sum.splits if_splits dest: readCallback_frame)
next
  case (7 env frame buffer calls result s)
  then show ?case
    by (auto split: prod.splits if_splits dest: writeCallback_frame)
next
  case (8 env metadata calls result s)
  then show ?case by (simp add: metadataCallback_frame)
qed (auto simp: seekCallback_def errorCallback_def callback_frame_def)

lemma metadataCallback_streaminfo:
  "mStreamInfoValid (metadataCallback env md s) = (mStreamInfoValid s \<or> (\<exists>si. md = FLAC__METADATA_TYPE_STREAMINFO si))"
  "mStreamInfo (metadataCallback env md s) =
     (case md of FLAC__METADATA_TYPE_STREAMINFO si \<Rightarrow> if mStreamInfoValid s then mStreamInfo s else si
       | _ \<Rightarrow> mStreamInfo s)"
  using vorbis_fold_frame[of env _ s]
  by (auto simp: metadataCallback_def callback_state_def split: FLAC__StreamMetadata.splits option.splits)

lemma readCallback_streaminfo:
  "readCallback env n s = Inr (st, b, s') \<Longrightarrow> mStreamInfoValid s' = mStreamInfoValid s \<and> mStreamInfo s' = mStreamInfo s"
  by (auto simp: readCallback_def Let_def split: if_splits)

lemma writeCallback_streaminfo:
  "writeCallback f b s = (st, s') \<Longrightarrow> mStreamInfoValid s' = mStreamInfoValid s \<and> mStreamInfo s' = mStreamInfo s"
  by (auto simp: writeCallback_def split: if_splits)

lemma drive_streaminfo_kept:
  "drive env calls r s = Inr (ok, s') \<Longrightarrow> mStreamInfoValid s \<Longrightarrow>
     mStreamInfoValid s' \<and> mStreamInfo s' = mStreamInfo s"
proof (induction env calls r s rule: drive.induct)
  case (2 env requested calls result s)
  then show ?case
    by (auto split: sum.splits if_splits dest: readCallback_streaminfo)
next
  case (7 env frame buffer calls result s)
  then show ?case
    by (auto split: prod.splits if_splits dest: writeCallback_streaminfo)
next
  case (8 env metadata calls result s)
  then show ?case by (simp add: metadataCallback_streaminfo split: FLAC__StreamMetadata.splits)
qed (auto simp: seekCallback_def errorCallback_def)

lemma drive_first_STREAMINFO:
  "drive env calls r s = Inr (True, s') \<Longrightarrow> \<not> mStreamInfoValid s \<Longrightarrow>
     (case first_STREAMINFO calls of
        None \<Rightarrow> \<not> mStreamInfoValid s'
      | Some si \<Rightarrow> mStreamInfoValid s' \<and> mStreamInfo s' = si)"
proof (induction env calls r s rule: drive.induct)
  case (2 env requested calls result s)
  then show ?case
    by (auto split: sum.splits if_splits dest: readCallback_streaminfo)
next
  case (7 env frame buffer calls result s)
  then show ?case
    by (auto split: prod.splits if_splits dest: writeCallback_streaminfo)
next
  case (8 env metadata calls result s)
  show ?case
  proof (cases metadata)
    case (FLAC__METADATA_TYPE_STREAMINFO si)
    with 8 show ?thesis
      using drive_streaminfo_kept[of env calls result "metadataCallback env metadata s" True s']
      by (simp add: metadataCallback_streaminfo)
  qed (use 8 in \<open>simp_all add: metadataCallback_streaminfo\<close>)
qed (auto simp: seekCallback_def errorCallback_def)

subsection \<open>The outcome of \<^verbatim>\<open>init\<close>\<close>

lemma init_OK_D:
  "init env eng s0 = Inr (OK, s') \<Longrightarrow>
     \<exists>s. decoder_new_ok eng \<and> init_stream_ok eng \<and>
         drive_step env (until_end_of_metadata eng) (s0\<lparr>mDecoder := True\<rparr>) = Inr (True, s) \<and>
         mStreamInfoValid s \<and> getChannels s \<noteq> 0 \<and> getChannels s \<le> kMaxChannels \<and>
         supported_bits_per_sample (getBitsPerSample s) \<and>
         supported_sample_rate (getSampleRate s) \<and>
         mStreamInfo s' = mStreamInfo s \<and>
         mTrackMetadata s' = map_option (populate_track_metadata s) (mTrackMetadata s)"
  by (auto simp: init_def OK_def NO_INIT_def Let_def
           split: if_splits sum.splits prod.splits option.splits)

lemma init_done:
  assumes "metadata_phase_done env eng s0"
  shows "\<exists>s st s'. drive_step env (until_end_of_metadata eng) (s0\<lparr>mDecoder := True\<rparr>) = Inr (True, s) \<and>
         init env eng s0 = Inr (st, s') \<and>
         (st = OK \<or> st = NO_INIT) \<and>
         (st = OK) = (mStreamInfoValid s \<and> getChannels s \<noteq> 0 \<and> getChannels s \<le> kMaxChannels \<and>
            supported_bits_per_sample (getBitsPerSample s) \<and>
            supported_sample_rate (getSampleRate s))"
  using assms
  by (auto simp: metadata_phase_done_def init_def OK_def NO_INIT_def Let_def
           split: if_splits sum.splits prod.splits option.splits)

lemma supported_sample_rate_ge: "supported_sample_rate r \<Longrightarrow> 8000 \<le> uint r"
  by (auto simp: supported_sample_rate_def)

subsection \<open>Arithmetic of durations and seek targets\<close>

lemma sint_small:
  fixes w :: "64 word"
  assumes "uint w < 2 ^ 63"
  shows "sint w = uint w"
proof -
  have "signed_take_bit 63 (uint w) = uint w"
    using assms by (intro signed_take_bit_int_eq_self) (auto intro: order_trans[of _ 0])
  then show ?thesis by (simp add: sint_uint)
qed

lemma duration_no_overflow:
  fixes n :: "64 word" and rate :: "32 word"
  assumes "uint n * 1000000 < 2 ^ 64" and "8000 \<le> uint rate"
  shows "sint ((n * 1000000) div ucast rate) = (uint n * 1000000) div uint rate"
proof -
  have m: "uint (n * 1000000) = uint n * 1000000"
    using assms(1) by (simp add: uint_word_ariths take_bit_int_eq_self)
  have u: "uint (ucast rate :: 64 word) = uint rate"
    by (simp add: uint_up_ucast is_up)
  have d: "uint ((n * 1000000) div ucast rate) = (uint n * 1000000) div uint rate"
    by (simp add: uint_div m u)
  have "(uint n * 1000000) div uint rate \<le> (uint n * 1000000) div 8000"
    using assms(2) by (intro zdiv_mono2) auto
  also have "\<dots> < 2 ^ 63" using assms(1) by simp
  finally have "uint ((n * 1000000) div ucast rate) < 2 ^ 63" using d by simp
  then have "sint ((n * 1000000) div ucast rate) = uint ((n * 1000000) div ucast rate)"
    by (rule sint_small)
  with d show ?thesis by simp
qed


lemma supported_bits_iff: "supported_bits_per_sample b = (b \<in> {8, 16, 24})"
  by (auto simp: supported_bits_per_sample_def)

lemma supported_rate_iff:
  "supported_sample_rate r =
     (r \<in> {8000, 11025, 12000, 16000, 22050, 24000, 32000, 44100, 48000, 88200, 96000})"
  by (auto simp: supported_sample_rate_def)

lemma members_not_valid:
  "\<not> mStreamInfoValid ((FLACParser_members f fm tm)\<lparr>mDecoder := True\<rparr>)"
  "mTrackMetadata ((FLACParser_members f fm tm)\<lparr>mDecoder := True\<rparr>) = tm"
  by (simp_all add: FLACParser_members_def)

subsection \<open>Track metadata\<close>

text \<open>
  Claim C2, amended. For every stream whose initialization succeeds (the extractor is
  built and reports its one track), the track metadata holds the mime type of raw
  audio, and the channel count, sample rate and bits per sample of the stream's
  parameter block, the first STREAMINFO block of the metadata phase. The duration is
  \<^verbatim>\<open>totalSamples * 1000000 / sampleRate\<close> computed in 64-bit unsigned arithmetic; when
  the product fits in 64 bits (every total of at most 44 bits does, and the FLAC container
  stores 36) it is the truncated quotient of the integers. A 44100 Hz stream of 1000
  samples reports 22675 microseconds, not 22676: 1000000000 / 44100 = 22675.7...
\<close>

theorem track_metadata_reports_stream_parameters:
  assumes "FLACExtractor_new env eng = Inr ex" and "countTracks ex = 1"
  shows "\<exists>si m.
      first_STREAMINFO (es_calls (until_end_of_metadata eng)) = Some si \<and>
      extractor_mTrackMetadata ex = Some m \<and>
      m AMEDIAFORMAT_KEY_MIME = Some (String ''audio/raw'') \<and>
      m AMEDIAFORMAT_KEY_CHANNEL_COUNT = Some (Int32 (si_channels si)) \<and>
      m AMEDIAFORMAT_KEY_SAMPLE_RATE = Some (Int32 (si_sample_rate si)) \<and>
      m AMEDIAFORMAT_KEY_BITS_PER_SAMPLE = Some (Int32 (si_bits_per_sample si)) \<and>
      (\<exists>d. m AMEDIAFORMAT_KEY_DURATION = Some (Int64 d) \<and>
           d = (si_total_samples si * 1000000) div ucast (si_sample_rate si) \<and>
           (uint (si_total_samples si) * 1000000 < 2 ^ 64 \<longrightarrow>
              sint d = (uint (si_total_samples si) * 1000000) div uint (si_sample_rate si)))"
proof -
  let ?s0 = "FLACParser_members False (Some AMediaFormat_new) (Some AMediaFormat_new)"
  from assms obtain p where p: "FLACParser_new env eng False (Some AMediaFormat_new) (Some AMediaFormat_new) = Inr p"
    and ex: "ex = \<lparr>extractor_mParser = p, extractor_mInitCheck = initCheck p,
               extractor_mFileMetadata = mFileMetadata p,
               extractor_mTrackMetadata = mTrackMetadata p\<rparr>"
    by (auto simp: FLACExtractor_new_def split: sum.splits)
  from p obtain st s' where i: "init env eng ?s0 = Inr (st, s')" and p': "p = s'\<lparr>mInitCheck := (st \<noteq> 0)\<rparr>"
    by (auto simp: FLACParser_new_def split: sum.splits)
  from assms(2) ex p' have "st = OK"
    by (auto simp: countTracks_def initCheck_def OK_def split: if_splits)
  with i have "init env eng ?s0 = Inr (OK, s')" by simp
  from init_OK_D[OF this] obtain s where
    d: "drive_step env (until_end_of_metadata eng) (?s0\<lparr>mDecoder := True\<rparr>) = Inr (True, s)"
    and v: "mStreamInfoValid s" and r: "supported_sample_rate (getSampleRate s)"
    and si: "mStreamInfo s' = mStreamInfo s"
    and tm: "mTrackMetadata s' = map_option (populate_track_metadata s) (mTrackMetadata s)"
    by blast
  from d have d': "drive env (es_calls (until_end_of_metadata eng))
      (es_result (until_end_of_metadata eng)) (?s0\<lparr>mDecoder := True\<rparr>) = Inr (True, s)"
    by (simp add: drive_step_def)
  from drive_first_STREAMINFO[OF d'] v obtain si where
    f: "first_STREAMINFO (es_calls (until_end_of_metadata eng)) = Some si"
    and si': "mStreamInfo s = si"
    by (auto simp: members_not_valid split: option.splits)
  from drive_frame[OF d'] have "mTrackMetadata s = Some AMediaFormat_new"
    by (simp add: callback_frame_def members_not_valid)
  with tm p' ex have m: "extractor_mTrackMetadata ex = Some (populate_track_metadata s AMediaFormat_new)"
    by simp
  let ?m = "populate_track_metadata s AMediaFormat_new"
  let ?d = "(si_total_samples si * 1000000) div ucast (si_sample_rate si)"
  have keys: "?m AMEDIAFORMAT_KEY_MIME = Some (String ''audio/raw'')"
    "?m AMEDIAFORMAT_KEY_CHANNEL_COUNT = Some (Int32 (si_channels si))"
    "?m AMEDIAFORMAT_KEY_SAMPLE_RATE = Some (Int32 (si_sample_rate si))"
    "?m AMEDIAFORMAT_KEY_BITS_PER_SAMPLE = Some (Int32 (si_bits_per_sample si))"
    "?m AMEDIAFORMAT_KEY_DURATION = Some (Int64 ?d)"
    using si'
    by (simp_all add: populate_track_metadata_def MEDIA_MIMETYPE_AUDIO_RAW_def
          getChannels_def getSampleRate_def getBitsPerSample_def getTotalSamples_def)
  from r si' have "8000 \<le> uint (si_sample_rate si)"
    by (auto simp: getSampleRate_def dest: supported_sample_rate_ge)
  then have dur: "uint (si_total_samples si) * 1000000 < 2 ^ 64 \<longrightarrow>
      sint ?d = (uint (si_total_samples si) * 1000000) div uint (si_sample_rate si)"
    using duration_no_overflow[of "si_total_samples si" "si_sample_rate si"] by blast
  from f m keys dur show ?thesis by blast
qed

text \<open>The mono, 16-bit, 44100 Hz stream of 1000 samples: one track, 22675 microseconds.\<close>

theorem track_metadata_reports_stream_parameters_witness:
  "\<exists>ex m. FLACExtractor_new example_env
            (example_setup [example_stream_info 1 16 44100 1000]) = Inr ex \<and>
     countTracks ex = 1 \<and>
     extractor_mTrackMetadata ex = Some m \<and>
     m AMEDIAFORMAT_KEY_CHANNEL_COUNT = Some (Int32 1) \<and>
     m AMEDIAFORMAT_KEY_SAMPLE_RATE = Some (Int32 44100) \<and>
     m AMEDIAFORMAT_KEY_BITS_PER_SAMPLE = Some (Int32 16) \<and>
     m AMEDIAFORMAT_KEY_DURATION = Some (Int64 22675)"
proof -
  let ?eng = "example_setup [example_stream_info 1 16 44100 1000]"
  obtain ex where ex: "FLACExtractor_new example_env ?eng = Inr ex"
    by (simp add: FLACExtractor_new_def FLACParser_new_def init_def drive_step_def
          example_setup_def example_stream_info_def metadataCallback_def
          FLACParser_members_def getChannels_def getBitsPerSample_def getSampleRate_def
          kMaxChannels_def supported_bits_per_sample_def supported_sample_rate_def Let_def)
  then have c: "countTracks ex = 1"
    by (auto simp add: FLACExtractor_new_def FLACParser_new_def init_def drive_step_def
          example_setup_def example_stream_info_def metadataCallback_def
          FLACParser_members_def getChannels_def getBitsPerSample_def getSampleRate_def
          kMaxChannels_def supported_bits_per_sample_def supported_sample_rate_def Let_def
          countTracks_def initCheck_def OK_def)
  from track_metadata_reports_stream_parameters[OF ex c] ex c show ?thesis
    by (auto simp: example_setup_def example_stream_info_def)
qed

text \<open>The duration the claim gives for that stream, 22676, is not what is reported.\<close>

theorem duration_example_counterexample:
  "\<not> (\<exists>ex m. FLACExtractor_new example_env
                (example_setup [example_stream_info 1 16 44100 1000]) = Inr ex \<and>
        extractor_mTrackMetadata ex = Some m \<and>
        m AMEDIAFORMAT_KEY_DURATION = Some (Int64 22676))"
  by (simp add: FLACExtractor_new_def FLACParser_new_def init_def drive_step_def
          example_setup_def example_stream_info_def metadataCallback_def
          FLACParser_members_def getChannels_def getBitsPerSample_def getSampleRate_def
          getTotalSamples_def populate_track_metadata_def AMediaFormat_new_def
          kMaxChannels_def supported_bits_per_sample_def supported_sample_rate_def Let_def)

subsection \<open>Validation of the stream parameters\<close>

lemmas example_eval =
  FLACExtractor_new_def FLACParser_new_def init_def drive_step_def
  example_setup_def example_stream_info_def metadataCallback_def
  FLACParser_members_def getChannels_def getBitsPerSample_def getSampleRate_def
  getTotalSamples_def kMaxChannels_def supported_bits_per_sample_def
  supported_sample_rate_def Let_def metadata_phase_done_def

text \<open>
  Claim C3. Once the metadata phase is done (the decoder was set up and the metadata
  call returned true), the extractor is built, and initialization fails, the extractor
  then reporting zero tracks, if and only if there is no stream-parameters block among
  the metadata, or its channel count is 0 or greater than 8, or its bit depth is not one
  of 8, 16, 24, or its sample rate is not one of the eleven supported rates. Otherwise
  exactly one track is reported.
\<close>

theorem init_fails_iff_invalid_stream_parameters:
  assumes "metadata_phase_done env eng
             (FLACParser_members False (Some AMediaFormat_new) (Some AMediaFormat_new))"
  shows "\<exists>ex. FLACExtractor_new env eng = Inr ex \<and>
      (countTracks ex = 0 \<or> countTracks ex = 1) \<and>
      mInitCheck (extractor_mParser ex) = (countTracks ex = 0) \<and>
      (countTracks ex = 0) =
        (case first_STREAMINFO (es_calls (until_end_of_metadata eng)) of
           None \<Rightarrow> True
         | Some si \<Rightarrow>
             si_channels si = 0 \<or> 8 < si_channels si \<or>
             si_bits_per_sample si \<notin> {8, 16, 24} \<or>
             si_sample_rate si \<notin> {8000, 11025, 12000, 16000, 22050, 24000, 32000,
                                     44100, 48000, 88200, 96000})"
proof -
  let ?s0 = "FLACParser_members False (Some AMediaFormat_new) (Some AMediaFormat_new)"
  let ?calls = "es_calls (until_end_of_metadata eng)"
  from init_done[OF assms] obtain s st s' where
    d: "drive_step env (until_end_of_metadata eng) (?s0\<lparr>mDecoder := True\<rparr>) = Inr (True, s)"
    and i: "init env eng ?s0 = Inr (st, s')"
    and st: "st = OK \<or> st = NO_INIT"
    and ok: "(st = OK) = (mStreamInfoValid s \<and> getChannels s \<noteq> 0 \<and> getChannels s \<le> kMaxChannels \<and>
            supported_bits_per_sample (getBitsPerSample s) \<and>
            supported_sample_rate (getSampleRate s))"
    by blast
  from d have d': "drive env ?calls (es_result (until_end_of_metadata eng))
      (?s0\<lparr>mDecoder := True\<rparr>) = Inr (True, s)"
    by (simp add: drive_step_def)
  note f = drive_first_STREAMINFO[OF d' members_not_valid(1)]
  let ?ex = "\<lparr>extractor_mParser = s'\<lparr>mInitCheck := (st \<noteq> 0)\<rparr>,
              extractor_mInitCheck = initCheck (s'\<lparr>mInitCheck := (st \<noteq> 0)\<rparr>),
              extractor_mFileMetadata = mFileMetadata (s'\<lparr>mInitCheck := (st \<noteq> 0)\<rparr>),
              extractor_mTrackMetadata = mTrackMetadata (s'\<lparr>mInitCheck := (st \<noteq> 0)\<rparr>)\<rparr>"
  have ex: "FLACExtractor_new env eng = Inr ?ex"
    using i by (simp add: FLACExtractor_new_def FLACParser_new_def)
  have c: "countTracks ?ex = (if st = OK then 1 else 0)"
    by (simp add: countTracks_def initCheck_def OK_def)
  have m: "mInitCheck (extractor_mParser ?ex) = (st \<noteq> OK)"
    by (simp add: OK_def)
  have bad: "(st \<noteq> OK) =
        (case first_STREAMINFO ?calls of
           None \<Rightarrow> True
         | Some si \<Rightarrow>
             si_channels si = 0 \<or> 8 < si_channels si \<or>
             si_bits_per_sample si \<notin> {8, 16, 24} \<or>
             si_sample_rate si \<notin> {8000, 11025, 12000, 16000, 22050, 24000, 32000,
                                     44100, 48000, 88200, 96000})"
    using f ok
    by (auto simp: supported_bits_iff supported_rate_iff getChannels_def getBitsPerSample_def
          getSampleRate_def kMaxChannels_def not_le split: option.splits)
  show ?thesis
    using ex c m bad by (intro exI[of _ ?ex]) (simp split: if_splits)
qed

text \<open>
  Nine channels, a bit depth of 12, a rate of 3000 Hz and a missing block each give zero
  tracks; a 2-channel, 16-bit, 44100 Hz stream gives one.
\<close>

theorem init_fails_iff_invalid_stream_parameters_witness:
  "(\<exists>ex. FLACExtractor_new example_env (example_setup [example_stream_info 9 16 44100 1000]) = Inr ex
         \<and> countTracks ex = 0) \<and>
   (\<exists>ex. FLACExtractor_new example_env (example_setup [example_stream_info 2 12 44100 1000]) = Inr ex
         \<and> countTracks ex = 0) \<and>
   (\<exists>ex. FLACExtractor_new example_env (example_setup [example_stream_info 2 16 3000 1000]) = Inr ex
         \<and> countTracks ex = 0) \<and>
   (\<exists>ex. FLACExtractor_new example_env (example_setup []) = Inr ex \<and> countTracks ex = 0) \<and>
   (\<exists>ex. FLACExtractor_new example_env (example_setup [example_stream_info 2 16 44100 1000]) = Inr ex
         \<and> countTracks ex = 1)"
proof -
  let ?s0 = "FLACParser_members False (Some AMediaFormat_new) (Some AMediaFormat_new)"
  have mpd: "metadata_phase_done example_env (example_setup blocks) ?s0" for blocks
  proof -
    have "\<exists>s'. drive example_env (map (\<lambda>b. MetadataCb (FLAC__METADATA_TYPE_STREAMINFO b)) blocks)
             True s = Inr (True, s')" for s
      by (induction blocks arbitrary: s) auto
    from this[of "?s0\<lparr>mDecoder := True\<rparr>"] show ?thesis
      by (auto simp: metadata_phase_done_def example_setup_def drive_step_def)
  qed
  have first: "first_STREAMINFO (es_calls (until_end_of_metadata (example_setup blocks))) =
      (case blocks of [] \<Rightarrow> None | b # bs \<Rightarrow> Some b)" for blocks
    by (cases blocks) (simp_all add: example_setup_def)
  have 1: "\<exists>ex. FLACExtractor_new example_env
      (example_setup [example_stream_info 9 16 44100 1000]) = Inr ex \<and> countTracks ex = 0"
    using init_fails_iff_invalid_stream_parameters[OF mpd[of "[example_stream_info 9 16 44100 1000]"]]
    by (auto simp: first example_stream_info_def)
  have 2: "\<exists>ex. FLACExtractor_new example_env
      (example_setup [example_stream_info 2 12 44100 1000]) = Inr ex \<and> countTracks ex = 0"
    using init_fails_iff_invalid_stream_parameters[OF mpd[of "[example_stream_info 2 12 44100 1000]"]]
    by (auto simp: first example_stream_info_def)
  have 3: "\<exists>ex. FLACExtractor_new example_env
      (example_setup [example_stream_info 2 16 3000 1000]) = Inr ex \<and> countTracks ex = 0"
    using init_fails_iff_invalid_stream_parameters[OF mpd[of "[example_stream_info 2 16 3000 1000]"]]
    by (auto simp: first example_stream_info_def)
  have 4: "\<exists>ex. FLACExtractor_new example_env (example_setup []) = Inr ex \<and> countTracks ex = 0"
    using init_fails_iff_invalid_stream_parameters[OF mpd[of "[]"]]
    by (auto simp: first)
  have 5: "\<exists>ex. FLACExtractor_new example_env
      (example_setup [example_stream_info 2 16 44100 1000]) = Inr ex \<and> countTracks ex = 1"
    using init_fails_iff_invalid_stream_parameters[OF mpd[of "[example_stream_info 2 16 44100 1000]"]]
    by (auto simp: first example_stream_info_def)
  from 1 2 3 4 5 show ?thesis by blast
qed

subsection \<open>A duplicate stream-parameters block\<close>

lemma drive_skip_STREAMINFO_valid:
  "mStreamInfoValid s \<Longrightarrow>
     drive env (pre @ MetadataCb (FLAC__METADATA_TYPE_STREAMINFO b) # post) r s =
     drive env (pre @ post) r s"
proof (induction env pre r s rule: drive.induct)
  case (1 env result s)
  then show ?case by (simp add: metadataCallback_def)
next
  case (2 env requested calls result s)
  show ?case
  proof (cases "readCallback env requested s")
    case (Inl e)
    then show ?thesis by simp
  next
    case (Inr x)
    obtain st n s' where x: "x = (st, n, s')" by (cases x)
    with Inr 2 readCallback_streaminfo[of env requested s st n s'] show ?thesis
      by auto
  qed
next
  case (7 env frame buffer calls result s)
  obtain st s' where w: "writeCallback frame buffer s = (st, s')"
    by (cases "writeCallback frame buffer s")
  with 7 writeCallback_streaminfo[OF w] show ?case
    by auto
next
  case (8 env metadata calls result s)
  then show ?case by (simp add: metadataCallback_streaminfo)
qed (auto simp: seekCallback_def errorCallback_def)

lemma drive_skip_STREAMINFO:
  "MetadataCb (FLAC__METADATA_TYPE_STREAMINFO a) \<in> set pre \<Longrightarrow>
     drive env (pre @ MetadataCb (FLAC__METADATA_TYPE_STREAMINFO b) # post) r s =
     drive env (pre @ post) r s"
proof (induction env pre r s rule: drive.induct)
  case (2 env requested calls result s)
  then show ?case
    by (auto split: sum.splits if_splits)
next
  case (7 env frame buffer calls result s)
  then show ?case
    by (auto split: prod.splits if_splits)
next
  case (8 env metadata calls result s)
  show ?case
  proof (cases "metadata = FLAC__METADATA_TYPE_STREAMINFO a")
    case True
    then have "mStreamInfoValid (metadataCallback env metadata s)"
      by (simp add: metadataCallback_streaminfo)
    then show ?thesis
      by (simp add: drive_skip_STREAMINFO_valid)
  next
    case False
    with 8 show ?thesis by simp
  qed
qed auto

text \<open>
  Claim C4, amended. A STREAMINFO block that the metadata phase delivers after a first
  one is ignored: the first block wins, and the extractor is built exactly as if the
  later block had not been delivered. In particular a stream with a valid first block
  and a duplicate reports one track.
\<close>

theorem duplicate_STREAMINFO_ignored:
  assumes "MetadataCb (FLAC__METADATA_TYPE_STREAMINFO a) \<in> set pre"
  shows "FLACExtractor_new env
           (eng\<lparr>until_end_of_metadata :=
                  \<lparr>es_calls = pre @ MetadataCb (FLAC__METADATA_TYPE_STREAMINFO b) # post,
                   es_result = r\<rparr>\<rparr>) =
         FLACExtractor_new env
           (eng\<lparr>until_end_of_metadata := \<lparr>es_calls = pre @ post, es_result = r\<rparr>\<rparr>)"
  using drive_skip_STREAMINFO[OF assms]
  by (simp add: FLACExtractor_new_def FLACParser_new_def init_def drive_step_def)

text \<open>
  A valid block followed by an unsupported one: the extractor is the one of the valid
  block alone, with one track and the two channels of the first block.
\<close>

theorem duplicate_STREAMINFO_ignored_witness:
  "MetadataCb (FLAC__METADATA_TYPE_STREAMINFO (example_stream_info 2 16 44100 1000))
     \<in> set [MetadataCb (FLAC__METADATA_TYPE_STREAMINFO (example_stream_info 2 16 44100 1000))] \<and>
   FLACExtractor_new example_env
     (example_setup [example_stream_info 2 16 44100 1000, example_stream_info 9 12 3000 5]) =
   FLACExtractor_new example_env (example_setup [example_stream_info 2 16 44100 1000]) \<and>
   (\<exists>ex. FLACExtractor_new example_env
          (example_setup [example_stream_info 2 16 44100 1000, example_stream_info 9 12 3000 5])
        = Inr ex \<and> countTracks ex = 1 \<and>
        getChannels (extractor_mParser ex) = 2)"
proof -
  let ?a = "example_stream_info 2 16 44100 1000"
  have h: "MetadataCb (FLAC__METADATA_TYPE_STREAMINFO ?a)
             \<in> set [MetadataCb (FLAC__METADATA_TYPE_STREAMINFO ?a)]"
    by simp
  have e: "FLACExtractor_new example_env (example_setup [?a, example_stream_info 9 12 3000 5]) =
      FLACExtractor_new example_env (example_setup [?a])"
    using duplicate_STREAMINFO_ignored[OF h, where env = example_env
        and eng = "example_setup []" and b = "example_stream_info 9 12 3000 5"
        and post = "[]" and r = True]
    by (simp add: example_setup_def)
  have "\<exists>ex. FLACExtractor_new example_env (example_setup [?a]) = Inr ex \<and> countTracks ex = 1 \<and>
        getChannels (extractor_mParser ex) = 2"
    by (simp add: example_eval countTracks_def initCheck_def OK_def)
  with h e show ?thesis by simp
qed

text \<open>
  The claim as stated fails: a stream that delivers its parameter block twice is
  initialized and reports one track.
\<close>

theorem duplicate_STREAMINFO_counterexample:
  "\<exists>ex. FLACExtractor_new example_env
          (example_setup [example_stream_info 2 16 44100 1000,
                          example_stream_info 2 16 44100 1000]) = Inr ex \<and>
        countTracks ex = 1"
  by (simp add: example_eval countTracks_def initCheck_def OK_def)

subsection \<open>The sniffer\<close>

lemma length_flac_magic: "length flac_magic = 8"
  by (simp add: flac_magic_def)

lemma byte_stream_readAt_header:
  "readAt (byte_stream bytes) 0 8 = (int (length (take 8 bytes)), take 8 bytes)"
  by (simp add: byte_stream_def)

text \<open>
  Claim C9. \<^verbatim>\<open>SniffFLAC\<close> recognizes a source if and only if the read of 8 bytes at
  offset 0 returns 8 and the bytes read are the magic sequence, the characters fLaC
  followed by 0x00 0x00 0x00 0x22. On a match the confidence is set to the constant 0.5;
  otherwise it is left as it was. A byte stream is recognized if and only if its first 8
  bytes are the magic sequence, whatever follows them.
\<close>

theorem SniffFLAC_magic:
  "SniffFLAC source confidence =
     (if fst (readAt source 0 8) = 8 \<and> snd (readAt source 0 8) = flac_magic
      then (True, 1 / 2) else (False, confidence))
   \<and> fst (SniffFLAC (byte_stream bytes) confidence) = (take 8 bytes = flac_magic)
   \<and> flac_magic = map (\<lambda>c. of_nat (of_char c)) ''fLaC'' @ [0, 0, 0, 0x22]"
proof -
  have a: "SniffFLAC src c =
     (if fst (readAt src 0 8) = 8 \<and> snd (readAt src 0 8) = flac_magic
      then (True, 1 / 2) else (False, c))" for src c
    by (auto simp: SniffFLAC_def split: prod.splits)
  have "fst (SniffFLAC (byte_stream bytes) confidence) =
      (int (length (take 8 bytes)) = 8 \<and> take 8 bytes = flac_magic)"
    unfolding a byte_stream_readAt_header by simp
  also have "\<dots> = (take 8 bytes = flac_magic)"
    using length_flac_magic by (metis of_nat_numeral)
  finally have b: "fst (SniffFLAC (byte_stream bytes) confidence) = (take 8 bytes = flac_magic)" .
  have c: "flac_magic = map (\<lambda>c. of_nat (of_char c)) ''fLaC'' @ [0, 0, 0, 0x22]"
    by (simp add: flac_magic_def)
  from a b c show ?thesis by blast
qed

text \<open>
  The magic followed by other bytes is recognized with confidence 0.5; a stream that
  differs in the eighth byte, and one that is a byte short, are not.
\<close>

theorem SniffFLAC_magic_witness:
  "SniffFLAC (byte_stream (flac_magic @ [1, 2, 3])) 0 = (True, 1 / 2) \<and>
   SniffFLAC (byte_stream [0x66, 0x4C, 0x61, 0x43, 0, 0, 0, 0x21, 1, 2, 3]) 0 = (False, 0) \<and>
   SniffFLAC (byte_stream (take 7 flac_magic)) 0 = (False, 0)"
proof -
  have 1: "SniffFLAC (byte_stream (flac_magic @ [1, 2, 3])) 0 = (True, 1 / 2)"
    using SniffFLAC_magic[of "byte_stream (flac_magic @ [1, 2, 3])" 0 "[]"]
    by (simp add: byte_stream_readAt_header length_flac_magic)
  have 2: "SniffFLAC (byte_stream [0x66, 0x4C, 0x61, 0x43, 0, 0, 0, 0x21, 1, 2, 3]) 0 = (False, 0)"
    using SniffFLAC_magic[of "byte_stream [0x66, 0x4C, 0x61, 0x43, 0, 0, 0, 0x21, 1, 2, 3]" 0 "[]"]
    by (simp add: byte_stream_readAt_header flac_magic_def)
  have 3: "SniffFLAC (byte_stream (take 7 flac_magic)) 0 = (False, 0)"
    using SniffFLAC_magic[of "byte_stream (take 7 flac_magic)" 0 "[]"]
    by (simp add: byte_stream_readAt_header length_flac_magic)
  from 1 2 3 show ?thesis by blast
qed

subsection \<open>The output format of a track\<close>





lemma readBuffer_Some_D:
  "readBuffer env ext doSeek sample s0 = Inr (Some b, s') \<Longrightarrow>
     drive_step env (decoder_call ext doSeek sample) (armed s0) = Inr (True, s') \<and>
     mWriteCompleted s' \<and> \<not> invalid_blocksize s' \<and> \<not> changed_parameters s' \<and>
     acquire_buffer ext = OK \<and>
     (\<exists>g. mGroup s' = Some g \<and> fill_buffer env g s' = Inr b)"
  by (auto simp: readBuffer_def decoder_call_def armed_def
        split: sum.splits prod.splits if_splits option.splits)









subsection \<open>The one-shot write protocol\<close>

lemma example_parser_reached:
  "b \<in> {8, 16, 24} \<Longrightarrow>
   \<exists>p. FLACParser_new example_env (example_setup [example_stream_info 2 b 44100 1000]) f None None
         = Inr p \<and> allocateBuffers p = Inr (example_parser b f)"
  by (auto simp add: example_eval example_parser_def allocateBuffers_def getMaxBlockSize_def
        getOutputSampleSize_def OK_def NO_INIT_def)

lemma writeCallback_unrequested:
  "writeCallback f b s = (st, s') \<Longrightarrow> \<not> mWriteRequested s' \<and>
     (\<not> mWriteRequested s \<longrightarrow> st = FLAC__STREAM_DECODER_WRITE_STATUS_ABORT)"
  by (auto simp: writeCallback_def split: if_splits)

lemma readCallback_write_flags:
  "readCallback env n s = Inr (st, b, s') \<Longrightarrow> mWriteRequested s' = mWriteRequested s"
  by (auto simp: readCallback_def Let_def split: if_splits)

lemma metadataCallback_write_flags:
  "mWriteRequested (metadataCallback env md s) = mWriteRequested s"
  using vorbis_fold_frame[of env _ s]
  by (auto simp: metadataCallback_def callback_state_def
        split: FLAC__StreamMetadata.splits option.splits)

lemma drive_unrequested_push_fails:
  "drive env calls r s = Inr (ok, s') \<Longrightarrow> \<not> mWriteRequested s \<Longrightarrow>
     WriteCb f b \<in> set calls \<Longrightarrow> \<not> ok"
proof (induction calls arbitrary: s)
  case Nil
  then show ?case by simp
next
  case (Cons c calls)
  show ?case
  proof (cases c)
    case (ReadCb n)
    show ?thesis
    proof (cases "readCallback env n s")
      case (Inl e)
      with Cons.prems ReadCb show ?thesis by simp
    next
      case (Inr x)
      obtain st k s1 where x: "x = (st, k, s1)" by (cases x)
      from Inr x Cons.prems(2) have "\<not> mWriteRequested s1"
        by (simp add: readCallback_write_flags)
      with Cons.IH[of s1] Cons.prems ReadCb Inr x show ?thesis
        by (auto split: if_splits)
    qed
  next
    case (WriteCb frame buffer)
    with Cons.prems show ?thesis
      by (simp add: writeCallback_def)
  next
    case (MetadataCb md)
    with Cons.IH[of "metadataCallback env md s"] Cons.prems show ?thesis
      by (simp add: metadataCallback_write_flags)
  next
    case (SeekCb off)
    with Cons.IH[of "seekCallback off s"] Cons.prems show ?thesis
      by (simp add: seekCallback_def)
  next
    case (ErrorCb e)
    with Cons.IH[of "errorCallback e s"] Cons.prems show ?thesis
      by (simp add: errorCallback_def)
  qed (use Cons.IH[of s] Cons.prems in simp_all)
qed

lemma drive_second_push_fails:
  "drive env (pre @ WriteCb f1 b1 # rest) r s = Inr (ok, s') \<Longrightarrow>
     WriteCb f2 b2 \<in> set rest \<Longrightarrow> \<not> ok"
proof (induction pre arbitrary: s)
  case Nil
  obtain st s1 where w: "writeCallback f1 b1 s = (st, s1)"
    by (cases "writeCallback f1 b1 s")
  with Nil writeCallback_unrequested[OF w]
    drive_unrequested_push_fails[of env rest r s1 ok s' f2 b2]
  show ?case by (auto split: if_splits)
next
  case (Cons c pre)
  show ?case
  proof (cases c)
    case (ReadCb n)
    show ?thesis
    proof (cases "readCallback env n s")
      case (Inl e)
      with Cons.prems ReadCb show ?thesis by simp
    next
      case (Inr x)
      obtain st k s1 where x: "x = (st, k, s1)" by (cases x)
      with Cons.IH[of s1] Cons.prems ReadCb Inr show ?thesis
        by (auto split: if_splits)
    qed
  next
    case (WriteCb frame buffer)
    obtain st s1 where w: "writeCallback frame buffer s = (st, s1)"
      by (cases "writeCallback frame buffer s")
    with Cons.IH[of s1] Cons.prems WriteCb show ?thesis
      by (auto split: if_splits)
  next
    case (MetadataCb md)
    with Cons.IH[of "metadataCallback env md s"] Cons.prems show ?thesis
      by simp
  next
    case (SeekCb off)
    with Cons.IH[of "seekCallback off s"] Cons.prems show ?thesis
      by simp
  next
    case (ErrorCb e)
    with Cons.IH[of "errorCallback e s"] Cons.prems show ?thesis
      by simp
  qed (use Cons.IH[of s] Cons.prems in simp_all)
qed

lemma example_parser_flags:
  "\<not> mWriteRequested (example_parser b f)" "mStreamInfoValid (example_parser b f)"
  "mStreamInfo (example_parser b f) = example_stream_info 2 b 44100 1000"
  "mOutputFloat (example_parser b f) = f"
  by (simp_all add: example_parser_def FLACParser_members_def)

text \<open>The example decoder pushing one frame on \<^verbatim>\<open>process_single\<close>.\<close>

lemma example_push:
  "drive_step example_env
     (decoder_call (example_externals n [WriteCb frame planes]) False sample)
     (armed (example_parser b f)) =
   Inr (True, (example_parser b f)
                \<lparr>mWriteRequested := False, mWriteCompleted := True,
                 mWriteHeader := header frame, mWriteBuffer := take 2 planes\<rparr>)"
  by (simp add: drive_step_def decoder_call_def example_externals_def writeCallback_def
        armed_def example_parser_def FLACParser_members_def getChannels_def
        example_stream_info_def)

text \<open>
  Claim C5. A push of the decoder that finds the write-requested flag clear answers
  with the abort status and leaves the parser as it was, and the decoder call it
  interrupts fails. A push that finds the flag set clears it, stores the frame header
  and the plane pointers of the stream's channels, sets the completed flag and answers
  with continue. When the decoder call of \<^verbatim>\<open>readBuffer\<close> returns and the completed
  flag is not set, \<^verbatim>\<open>readBuffer\<close> returns \<^verbatim>\<open>NULL\<close>. Within one
  \<^verbatim>\<open>readBuffer\<close> a second push finds the flag clear: the call fails and
  \<^verbatim>\<open>readBuffer\<close> returns \<^verbatim>\<open>NULL\<close>.
\<close>

theorem one_shot_write_protocol:
  "(\<not> mWriteRequested s \<longrightarrow>
      writeCallback frame buffer s = (FLAC__STREAM_DECODER_WRITE_STATUS_ABORT, s) \<and>
      drive env (WriteCb frame buffer # calls) result s = Inr (False, s))
   \<and> (mWriteRequested s \<longrightarrow>
      writeCallback frame buffer s =
        (FLAC__STREAM_DECODER_WRITE_STATUS_CONTINUE,
         s\<lparr>mWriteRequested := False,
           mWriteHeader := header frame,
           mWriteBuffer := take (unat (getChannels s)) buffer
                             @ drop (unat (getChannels s)) (mWriteBuffer s),
           mWriteCompleted := True\<rparr>))
   \<and> (drive_step env (decoder_call ext doSeek sample) (armed s0) = Inr (ok, s1) \<and>
        \<not> mWriteCompleted s1 \<longrightarrow>
      readBuffer env ext doSeek sample s0 = Inr (None, s1))
   \<and> (drive_step env (decoder_call ext doSeek sample) (armed s0) = Inr (ok, s1) \<and>
        es_calls (decoder_call ext doSeek sample) = pre @ WriteCb f1 b1 # mid @ WriteCb f2 b2 # post \<longrightarrow>
      \<not> ok \<and> readBuffer env ext doSeek sample s0 = Inr (None, s1))"
proof -
  have a: "\<not> mWriteRequested s \<longrightarrow>
      writeCallback frame buffer s = (FLAC__STREAM_DECODER_WRITE_STATUS_ABORT, s) \<and>
      drive env (WriteCb frame buffer # calls) result s = Inr (False, s)"
    by (simp add: writeCallback_def)
  have b: "mWriteRequested s \<longrightarrow>
      writeCallback frame buffer s =
        (FLAC__STREAM_DECODER_WRITE_STATUS_CONTINUE,
         s\<lparr>mWriteRequested := False,
           mWriteHeader := header frame,
           mWriteBuffer := take (unat (getChannels s)) buffer
                             @ drop (unat (getChannels s)) (mWriteBuffer s),
           mWriteCompleted := True\<rparr>)"
    by (simp add: writeCallback_def)
  have c: "readBuffer env ext doSeek sample s0 = Inr (None, s1)"
    if "drive_step env (decoder_call ext doSeek sample) (armed s0) = Inr (ok, s1)"
      and "\<not> ok \<or> \<not> mWriteCompleted s1" for ok s1
    using that by (auto simp: readBuffer_def decoder_call_def armed_def)
  have d: "\<not> ok"
    if "drive_step env (decoder_call ext doSeek sample) (armed s0) = Inr (ok, s1)"
      and "es_calls (decoder_call ext doSeek sample) = pre @ WriteCb f1 b1 # mid @ WriteCb f2 b2 # post"
    using that drive_second_push_fails[of env pre f1 b1 "mid @ WriteCb f2 b2 # post" _ "armed s0" ok s1 f2 b2]
    by (simp add: drive_step_def)
  from a b c d show ?thesis by blast
qed

text \<open>
  On the started example track: a push outside a read is refused; a push into the armed
  parser is captured; a decoder call without a push, and one with two pushes, give
  \<^verbatim>\<open>NULL\<close>.
\<close>

theorem one_shot_write_protocol_witness:
  "writeCallback (example_frame 2 2 16 44100 0) [[1, 2], [3, 4]] (example_parser 16 False) =
     (FLAC__STREAM_DECODER_WRITE_STATUS_ABORT, example_parser 16 False) \<and>
   drive example_env [WriteCb (example_frame 2 2 16 44100 0) [[1, 2], [3, 4]]] True
     (example_parser 16 False) = Inr (False, example_parser 16 False) \<and>
   writeCallback (example_frame 2 2 16 44100 0) [[1, 2], [3, 4]] (armed (example_parser 16 False)) =
     (FLAC__STREAM_DECODER_WRITE_STATUS_CONTINUE,
      (example_parser 16 False)
        \<lparr>mWriteRequested := False, mWriteCompleted := True,
         mWriteHeader := header (example_frame 2 2 16 44100 0),
         mWriteBuffer := [[1, 2], [3, 4]]\<rparr>) \<and>
   readBuffer example_env (example_externals 1000 []) False 0 (example_parser 16 False) =
     Inr (None, armed (example_parser 16 False)) \<and>
   (\<exists>s1. readBuffer example_env
           (example_externals 1000
              [WriteCb (example_frame 2 2 16 44100 0) [[1, 2], [3, 4]],
               WriteCb (example_frame 2 2 16 44100 2) [[5, 6], [7, 8]]])
           False 0 (example_parser 16 False) = Inr (None, s1))"
proof -
  let ?p = "example_parser 16 False"
  let ?f = "example_frame 2 2 16 44100 0"
  let ?b = "[[1, 2], [3, 4]] :: FLAC__int32 list list"
  let ?f2 = "example_frame 2 2 16 44100 2"
  let ?b2 = "[[5, 6], [7, 8]] :: FLAC__int32 list list"
  note t = one_shot_write_protocol
  have 1: "writeCallback ?f ?b ?p = (FLAC__STREAM_DECODER_WRITE_STATUS_ABORT, ?p) \<and>
      drive example_env [WriteCb ?f ?b] True ?p = Inr (False, ?p)"
    using t[where s = ?p and frame = ?f and buffer = ?b and env = example_env
        and calls = "[]" and result = True]
    by (simp add: example_parser_flags)
  have 2: "writeCallback ?f ?b (armed ?p) =
     (FLAC__STREAM_DECODER_WRITE_STATUS_CONTINUE,
      ?p\<lparr>mWriteRequested := False, mWriteCompleted := True,
         mWriteHeader := header ?f, mWriteBuffer := ?b\<rparr>)"
    using t[where s = "armed ?p" and frame = ?f and buffer = ?b]
    by (simp add: armed_def example_parser_def FLACParser_members_def getChannels_def
          example_stream_info_def)
  have d3: "drive_step example_env (decoder_call (example_externals 1000 []) False 0) (armed ?p)
      = Inr (True, armed ?p)"
    by (simp add: drive_step_def decoder_call_def example_externals_def)
  have 3: "readBuffer example_env (example_externals 1000 []) False 0 ?p = Inr (None, armed ?p)"
    using t[where env = example_env and ext = "example_externals 1000 []" and doSeek = False
        and sample = 0 and ?s0.0 = ?p and ok = True and ?s1.0 = "armed ?p"] d3
    by (simp add: armed_def)
  let ?ext = "example_externals 1000 [WriteCb ?f ?b, WriteCb ?f2 ?b2]"
  have "\<exists>ok s1. drive_step example_env (decoder_call ?ext False 0) (armed ?p) = Inr (ok, s1)"
    by (auto simp add: drive_step_def decoder_call_def example_externals_def writeCallback_def
          armed_def)
  then obtain ok s1 where
    d4: "drive_step example_env (decoder_call ?ext False 0) (armed ?p) = Inr (ok, s1)"
    by blast
  have c4: "es_calls (decoder_call ?ext False 0) = [] @ WriteCb ?f ?b # [] @ WriteCb ?f2 ?b2 # []"
    by (simp add: decoder_call_def example_externals_def)
  have 4: "\<exists>s1. readBuffer example_env ?ext False 0 ?p = Inr (None, s1)"
    using t[where env = example_env and ext = ?ext and doSeek = False
        and sample = 0 and ?s0.0 = ?p and ok = ok and ?s1.0 = s1
        and pre = "[]" and mid = "[]" and post = "[]" and ?f1.0 = ?f and ?b1.0 = ?b
        and ?f2.0 = ?f2 and ?b2.0 = ?b2] d4 c4
    by blast
  from 1 2 3 4 show ?thesis by blast
qed

subsection \<open>Validation of a decoded frame\<close>

lemma upt_2: "[0..<2] = [0, Suc 0]"
  by (simp add: numeral_2_eq_2)

lemma readBuffer_valid_frame:
  assumes "drive_step env (decoder_call ext doSeek sample) (armed s0) = Inr (True, s)"
    and "mWriteCompleted s" and "\<not> invalid_blocksize s" and "\<not> changed_parameters s"
    and "mGroup s = Some g" and "acquire_buffer ext = OK"
  shows "readBuffer env ext doSeek sample s0 =
           (case fill_buffer env g s of Inl e \<Rightarrow> Inl e | Inr b \<Rightarrow> Inr (Some b, s))"
  using assms by (simp add: readBuffer_def decoder_call_def armed_def)

text \<open>
  Claim C6. After initialization captured the stream parameters, whenever the decoder
  call of \<^verbatim>\<open>readBuffer\<close> succeeds with a completed push, \<^verbatim>\<open>readBuffer\<close> returns a
  buffer only if the block size of the captured frame is positive and at most the
  maximal block size, and its sample rate, channel count and bit depth equal those of
  the stream parameters; if any of these fails, \<^verbatim>\<open>readBuffer\<close> returns \<^verbatim>\<open>NULL\<close>.
\<close>

theorem readBuffer_validates_frame:
  assumes "mStreamInfoValid s0"
    and "drive_step env (decoder_call ext doSeek sample) (armed s0) = Inr (True, s)"
    and "mWriteCompleted s"
  shows "(readBuffer env ext doSeek sample s0 = Inr (Some buffer, s') \<longrightarrow>
            0 < fh_blocksize (mWriteHeader s) \<and>
            fh_blocksize (mWriteHeader s) \<le> si_max_blocksize (mStreamInfo s0) \<and>
            fh_sample_rate (mWriteHeader s) = si_sample_rate (mStreamInfo s0) \<and>
            fh_channels (mWriteHeader s) = si_channels (mStreamInfo s0) \<and>
            fh_bits_per_sample (mWriteHeader s) = si_bits_per_sample (mStreamInfo s0))
       \<and> (fh_blocksize (mWriteHeader s) = 0 \<or>
          si_max_blocksize (mStreamInfo s0) < fh_blocksize (mWriteHeader s) \<or>
          fh_sample_rate (mWriteHeader s) \<noteq> si_sample_rate (mStreamInfo s0) \<or>
          fh_channels (mWriteHeader s) \<noteq> si_channels (mStreamInfo s0) \<or>
          fh_bits_per_sample (mWriteHeader s) \<noteq> si_bits_per_sample (mStreamInfo s0) \<longrightarrow>
            readBuffer env ext doSeek sample s0 = Inr (None, s))"
proof -
  from assms(1) have "mStreamInfoValid (armed s0)" by (simp add: armed_def)
  with drive_streaminfo_kept[of env _ _ "armed s0" True s] assms(2)
  have si: "mStreamInfo s = mStreamInfo s0"
    by (simp add: drive_step_def armed_def)
  have bad: "readBuffer env ext doSeek sample s0 = Inr (None, s)"
    if "invalid_blocksize s \<or> changed_parameters s"
    using that assms(2,3) by (auto simp: readBuffer_def decoder_call_def armed_def)
  have good: "\<not> invalid_blocksize s \<and> \<not> changed_parameters s"
    if "readBuffer env ext doSeek sample s0 = Inr (Some buffer, s')"
    using readBuffer_Some_D[OF that] assms(2) by simp
  have inv: "invalid_blocksize s =
      (fh_blocksize (mWriteHeader s) = 0 \<or>
       si_max_blocksize (mStreamInfo s0) < fh_blocksize (mWriteHeader s))"
    by (simp add: invalid_blocksize_def getMaxBlockSize_def si)
  have chg: "changed_parameters s =
      (fh_sample_rate (mWriteHeader s) \<noteq> si_sample_rate (mStreamInfo s0) \<or>
       fh_channels (mWriteHeader s) \<noteq> si_channels (mStreamInfo s0) \<or>
       fh_bits_per_sample (mWriteHeader s) \<noteq> si_bits_per_sample (mStreamInfo s0))"
    by (simp add: changed_parameters_def getSampleRate_def getChannels_def
          getBitsPerSample_def si)
  from good have 1: "readBuffer env ext doSeek sample s0 = Inr (Some buffer, s') \<longrightarrow>
            0 < fh_blocksize (mWriteHeader s) \<and>
            fh_blocksize (mWriteHeader s) \<le> si_max_blocksize (mStreamInfo s0) \<and>
            fh_sample_rate (mWriteHeader s) = si_sample_rate (mStreamInfo s0) \<and>
            fh_channels (mWriteHeader s) = si_channels (mStreamInfo s0) \<and>
            fh_bits_per_sample (mWriteHeader s) = si_bits_per_sample (mStreamInfo s0)"
    unfolding inv chg by (simp add: word_gt_0 not_less)
  from bad have 2: "fh_blocksize (mWriteHeader s) = 0 \<or>
          si_max_blocksize (mStreamInfo s0) < fh_blocksize (mWriteHeader s) \<or>
          fh_sample_rate (mWriteHeader s) \<noteq> si_sample_rate (mStreamInfo s0) \<or>
          fh_channels (mWriteHeader s) \<noteq> si_channels (mStreamInfo s0) \<or>
          fh_bits_per_sample (mWriteHeader s) \<noteq> si_bits_per_sample (mStreamInfo s0) \<longrightarrow>
            readBuffer env ext doSeek sample s0 = Inr (None, s)"
    unfolding inv chg by blast
  from 1 2 show ?thesis by (rule conjI)
qed

text \<open>
  A matching frame of two samples is returned interleaved; a frame at 48000 Hz in a
  44100 Hz stream, an empty frame and a frame of 4097 samples (maximum 4096) give
  \<^verbatim>\<open>NULL\<close>.
\<close>

theorem readBuffer_validates_frame_witness:
  "(\<exists>buffer s'. readBuffer example_env
        (example_externals 1000 [WriteCb (example_frame 2 2 16 44100 0) [[1, 2], [3, 4]]])
        False 0 (example_parser 16 False) = Inr (Some buffer, s') \<and>
      data buffer = Pcm16 [1, 3, 2, 4] \<and> range_length buffer = 8) \<and>
   (\<exists>s. readBuffer example_env
        (example_externals 1000 [WriteCb (example_frame 2 2 16 48000 0) [[1, 2], [3, 4]]])
        False 0 (example_parser 16 False) = Inr (None, s)) \<and>
   (\<exists>s. readBuffer example_env
        (example_externals 1000 [WriteCb (example_frame 0 2 16 44100 0) [[], []]])
        False 0 (example_parser 16 False) = Inr (None, s)) \<and>
   (\<exists>s. readBuffer example_env
        (example_externals 1000 [WriteCb (example_frame 4097 2 16 44100 0) [[1, 2], [3, 4]]])
        False 0 (example_parser 16 False) = Inr (None, s))"
proof -
  let ?p = "example_parser 16 False"
  let ?b = "[[1, 2], [3, 4]] :: FLAC__int32 list list"
  note push = example_push[where n = 1000 and sample = 0 and b = 16 and f = False]
  let ?s = "?p\<lparr>mWriteRequested := False, mWriteCompleted := True,
               mWriteHeader := header (example_frame 2 2 16 44100 0),
               mWriteBuffer := take 2 ?b\<rparr>"
  have f: "fill_buffer example_env \<lparr>capacity = 16384\<rparr> ?s =
      Inr \<lparr>data = Pcm16 [1, 3, 2, 4], range_offset = 0, range_length = 8,
           kKeyTime = 0, kKeyIsSyncFrame = 1\<rparr>"
    by (simp add: fill_buffer_def example_frame_def example_parser_def
          FLACParser_members_def example_stream_info_def
          getSampleRate_def getChannels_def getBitsPerSample_def getOutputSampleSize_def
          copyTo16Signed_def sample_at_def shl_int_def upt_2 Let_def)
  have 1: "\<exists>buffer s'. readBuffer example_env
        (example_externals 1000 [WriteCb (example_frame 2 2 16 44100 0) ?b])
        False 0 ?p = Inr (Some buffer, s') \<and>
      data buffer = Pcm16 [1, 3, 2, 4] \<and> range_length buffer = 8"
    using readBuffer_valid_frame[OF push[where frame = "example_frame 2 2 16 44100 0"
          and planes = ?b], where g = "\<lparr>capacity = 16384\<rparr>"]
    unfolding f
    by (simp add: invalid_blocksize_def changed_parameters_def example_frame_def
          example_parser_def FLACParser_members_def example_stream_info_def
          getMaxBlockSize_def getSampleRate_def getChannels_def getBitsPerSample_def
          example_externals_def)
  have 2: "\<exists>s. readBuffer example_env
        (example_externals 1000 [WriteCb (example_frame 2 2 16 48000 0) ?b])
        False 0 ?p = Inr (None, s)"
    using readBuffer_validates_frame[OF example_parser_flags(2)
        push[where frame = "example_frame 2 2 16 48000 0" and planes = ?b]]
    by (simp add: example_frame_def example_parser_flags example_stream_info_def)
  have 3: "\<exists>s. readBuffer example_env
        (example_externals 1000 [WriteCb (example_frame 0 2 16 44100 0) [[], []]])
        False 0 ?p = Inr (None, s)"
    using readBuffer_validates_frame[OF example_parser_flags(2)
        push[where frame = "example_frame 0 2 16 44100 0" and planes = "[[], []]"]]
    by (simp add: example_frame_def example_parser_flags example_stream_info_def)
  have 4: "\<exists>s. readBuffer example_env
        (example_externals 1000 [WriteCb (example_frame 4097 2 16 44100 0) ?b])
        False 0 ?p = Inr (None, s)"
    using readBuffer_validates_frame[OF example_parser_flags(2)
        push[where frame = "example_frame 4097 2 16 44100 0" and planes = ?b]]
    by (simp add: example_frame_def example_parser_flags example_stream_info_def)
  from 1 2 3 4 show ?thesis by blast
qed

subsection \<open>Seeking\<close>





lemma read_seek_unfold:
  "seek_sample (source_mParser src) t = Inr sample \<Longrightarrow>
   read env ext (Some \<lparr>getSeekTo = Some t\<rparr>) src =
     (case readBuffer env ext True sample (source_mParser src) of
        Inl e \<Rightarrow> Inl e
      | Inr (buffer, p') \<Rightarrow>
          Inr (buffer, if buffer \<noteq> None then AMEDIA_OK else AMEDIA_ERROR_END_OF_STREAM,
               src\<lparr>source_mParser := p'\<rparr>))"
  by (simp add: read_def split: sum.splits prod.splits)

lemma read_status:
  "read env ext options src = Inr (buffer, st, src') \<Longrightarrow>
     (buffer \<noteq> None \<and> st = AMEDIA_OK) \<or> (buffer = None \<and> st = AMEDIA_ERROR_END_OF_STREAM)"
  by (cases buffer) (auto simp: read_def split: sum.splits prod.splits option.splits)

lemma readBuffer_no_frame:
  assumes "drive_step env (decoder_call ext doSeek sample) (armed p) = Inr (ok, p')"
    and "\<not> ok \<or> \<not> mWriteCompleted p' \<or> invalid_blocksize p' \<or> changed_parameters p' \<or>
         (mGroup p' \<noteq> None \<and> acquire_buffer ext \<noteq> OK)"
  shows "readBuffer env ext doSeek sample p = Inr (None, p')"
  using assms by (auto simp: readBuffer_def decoder_call_def armed_def)


lemma example_source_parser:
  "source_mParser (example_source b f) = example_parser b f"
  "getSampleRate (example_parser b f) = 44100"
  "getTotalSamples (example_parser b f) = 1000"
  by (simp_all add: example_source_def getSampleRate_def getTotalSamples_def
        example_parser_flags example_stream_info_def)


lemma example_parser_unknown_total_reached:
  "\<exists>p. FLACParser_new example_env (example_setup [example_stream_info 2 16 44100 0])
          False None None = Inr p \<and>
       allocateBuffers p = Inr example_parser_unknown_total"
  by (simp add: example_eval example_parser_unknown_total_def example_parser_def
        allocateBuffers_def getMaxBlockSize_def getOutputSampleSize_def OK_def NO_INIT_def)




subsection \<open>The status of a read\<close>

lemma drive_result_False:
  "drive env calls False s = Inr (ok, s') \<Longrightarrow> \<not> ok"
proof (induction calls arbitrary: s)
  case Nil
  then show ?case by simp
next
  case (Cons c calls)
  show ?case
  proof (cases c)
    case (ReadCb n)
    show ?thesis
    proof (cases "readCallback env n s")
      case (Inl e)
      with Cons.prems ReadCb show ?thesis by simp
    next
      case (Inr x)
      obtain st k s1 where x: "x = (st, k, s1)" by (cases x)
      with Cons.IH[of s1] Cons.prems ReadCb Inr show ?thesis
        by (auto split: if_splits)
    qed
  next
    case (WriteCb frame buffer)
    obtain st s1 where w: "writeCallback frame buffer s = (st, s1)"
      by (cases "writeCallback frame buffer s")
    with Cons.IH[of s1] Cons.prems WriteCb show ?thesis
      by (auto split: if_splits)
  next
    case (MetadataCb md)
    with Cons.IH[of "metadataCallback env md s"] Cons.prems show ?thesis
      by simp
  next
    case (SeekCb off)
    with Cons.IH[of "seekCallback off s"] Cons.prems show ?thesis
      by simp
  next
    case (ErrorCb e)
    with Cons.IH[of "errorCallback e s"] Cons.prems show ?thesis
      by simp
  qed (use Cons.IH[of s] Cons.prems in simp_all)
qed

lemma read_next_unfold:
  "read env ext None src =
     (case readBuffer env ext False 0 (source_mParser src) of
        Inl e \<Rightarrow> Inl e
      | Inr (buffer, p') \<Rightarrow>
          Inr (buffer, if buffer \<noteq> None then AMEDIA_OK else AMEDIA_ERROR_END_OF_STREAM,
               src\<lparr>source_mParser := p'\<rparr>))"
  by (simp add: read_def split: sum.splits prod.splits)

text \<open>
  Claim C10. Whenever \<^verbatim>\<open>read\<close> returns, it returns either a buffer with
  \<^verbatim>\<open>AMEDIA_OK\<close> or no buffer with \<^verbatim>\<open>AMEDIA_ERROR_END_OF_STREAM\<close>. Every failure
  of \<^verbatim>\<open>readBuffer\<close> is a \<^verbatim>\<open>NULL\<close> that \<^verbatim>\<open>read\<close> reports as end of stream: a
  decoder call that fails (after a read of the data source that returns an error, after
  a push that finds the flag clear, or because the decoder's seek or decoding fails), a
  call that ends without a push, a frame with an invalid block size or with parameters
  that differ from the stream's, and a buffer that cannot be acquired.
\<close>

theorem read_reports_end_of_stream:
  "(read env ext options src = Inr (buffer, st, src') \<longrightarrow>
      (buffer \<noteq> None \<and> st = AMEDIA_OK) \<or>
      (buffer = None \<and> st = AMEDIA_ERROR_END_OF_STREAM))
   \<and> (drive_step env (decoder_call ext doSeek sample) (armed p) = Inr (ok, p') \<and>
        (\<not> ok \<or> \<not> mWriteCompleted p' \<or> invalid_blocksize p' \<or> changed_parameters p' \<or>
         (mGroup p' \<noteq> None \<and> acquire_buffer ext \<noteq> OK)) \<longrightarrow>
      readBuffer env ext doSeek sample p = Inr (None, p'))
   \<and> (readBuffer env ext False 0 (source_mParser src) = Inr (None, p') \<longrightarrow>
      read env ext None src =
        Inr (None, AMEDIA_ERROR_END_OF_STREAM, src\<lparr>source_mParser := p'\<rparr>))
   \<and> (seek_sample (source_mParser src) t = Inr sample \<and>
        readBuffer env ext True sample (source_mParser src) = Inr (None, p') \<longrightarrow>
      read env ext (Some \<lparr>getSeekTo = Some t\<rparr>) src =
        Inr (None, AMEDIA_ERROR_END_OF_STREAM, src\<lparr>source_mParser := p'\<rparr>))
   \<and> (fst (readAt (mDataSource env) (mCurrentPos s) n) < 0 \<longrightarrow>
      drive env (ReadCb n # calls) result s = Inr (False, s))
   \<and> (\<not> mWriteRequested s \<longrightarrow>
      drive env (WriteCb frame planes # calls) result s = Inr (False, s))
   \<and> (drive env calls False s = Inr (ok, s') \<longrightarrow> \<not> ok)"
proof -
  note 1 = read_status[of env ext options src buffer st src']
  note 2 = readBuffer_no_frame[of env ext doSeek sample p ok p']
  have 3: "readBuffer env ext False 0 (source_mParser src) = Inr (None, p') \<longrightarrow>
      read env ext None src =
        Inr (None, AMEDIA_ERROR_END_OF_STREAM, src\<lparr>source_mParser := p'\<rparr>)"
    by (simp add: read_next_unfold)
  have 4: "seek_sample (source_mParser src) t = Inr sample \<and>
        readBuffer env ext True sample (source_mParser src) = Inr (None, p') \<longrightarrow>
      read env ext (Some \<lparr>getSeekTo = Some t\<rparr>) src =
        Inr (None, AMEDIA_ERROR_END_OF_STREAM, src\<lparr>source_mParser := p'\<rparr>)"
    by (simp add: read_seek_unfold)
  have 5: "fst (readAt (mDataSource env) (mCurrentPos s) n) < 0 \<longrightarrow>
      drive env (ReadCb n # calls) result s = Inr (False, s)"
    by (simp add: readCallback_def)
  have 6: "\<not> mWriteRequested s \<longrightarrow>
      drive env (WriteCb frame planes # calls) result s = Inr (False, s)"
    by (simp add: writeCallback_def)
  note 7 = drive_result_False[of env calls s ok s']
  from 1 2 3 4 5 6 7 show ?thesis by blast
qed

lemma example_fill_buffer:
  "fill_buffer example_env \<lparr>capacity = 16384\<rparr>
     ((example_parser 16 False)
        \<lparr>mWriteRequested := False, mWriteCompleted := True,
         mWriteHeader := header (example_frame 2 2 16 44100 0),
         mWriteBuffer := [[1, 2], [3, 4]]\<rparr>) =
   Inr \<lparr>data = Pcm16 [1, 3, 2, 4], range_offset = 0, range_length = 8,
        kKeyTime = 0, kKeyIsSyncFrame = 1\<rparr>"
  by (simp add: fill_buffer_def example_frame_def example_parser_def
        FLACParser_members_def example_stream_info_def
        getSampleRate_def getChannels_def getBitsPerSample_def getOutputSampleSize_def
        copyTo16Signed_def sample_at_def shl_int_def upt_2 Let_def)

lemma example_frame_accepted:
  "mWriteCompleted ((example_parser b f)
        \<lparr>mWriteRequested := False, mWriteCompleted := True,
         mWriteHeader := header (example_frame 2 2 b 44100 n), mWriteBuffer := planes\<rparr>)"
  "\<not> invalid_blocksize ((example_parser b f)
        \<lparr>mWriteRequested := False, mWriteCompleted := True,
         mWriteHeader := header (example_frame 2 2 b 44100 n), mWriteBuffer := planes\<rparr>)"
  "\<not> changed_parameters ((example_parser b f)
        \<lparr>mWriteRequested := False, mWriteCompleted := True,
         mWriteHeader := header (example_frame 2 2 b 44100 n), mWriteBuffer := planes\<rparr>)"
  "mGroup ((example_parser b f)
        \<lparr>mWriteRequested := False, mWriteCompleted := True,
         mWriteHeader := header (example_frame 2 2 b 44100 n), mWriteBuffer := planes\<rparr>)
     = Some \<lparr>capacity = (if f then 32768 else 16384)\<rparr>"
  by (simp_all add: invalid_blocksize_def changed_parameters_def example_frame_def
        example_parser_def FLACParser_members_def example_stream_info_def
        getMaxBlockSize_def getSampleRate_def getChannels_def getBitsPerSample_def)

lemma example_readBuffer:
  "readBuffer example_env
     (example_externals 1000 [WriteCb (example_frame 2 2 16 44100 0) [[1, 2], [3, 4]]])
     False 0 (example_parser 16 False) =
   Inr (Some \<lparr>data = Pcm16 [1, 3, 2, 4], range_offset = 0, range_length = 8,
              kKeyTime = 0, kKeyIsSyncFrame = 1\<rparr>,
        (example_parser 16 False)
          \<lparr>mWriteRequested := False, mWriteCompleted := True,
           mWriteHeader := header (example_frame 2 2 16 44100 0),
           mWriteBuffer := [[1, 2], [3, 4]]\<rparr>)"
  using readBuffer_valid_frame[OF example_push[where n = 1000 and sample = 0 and b = 16
        and f = False and frame = "example_frame 2 2 16 44100 0"
        and planes = "[[1, 2], [3, 4]]"] example_frame_accepted(1-4)[where b = 16 and f = False]]
  by (simp add: example_fill_buffer example_externals_def)

text \<open>
  On the started example track: a frame is returned with \<^verbatim>\<open>AMEDIA_OK\<close>; a decoder
  call without a frame, a failing data source, a frame with one channel in a 2-channel
  stream, and a buffer pool that returns an error each give no buffer and
  \<^verbatim>\<open>AMEDIA_ERROR_END_OF_STREAM\<close>.
\<close>

theorem read_reports_end_of_stream_witness:
  "(\<exists>buffer src'. read example_env
        (example_externals 1000 [WriteCb (example_frame 2 2 16 44100 0) [[1, 2], [3, 4]]])
        None (example_source 16 False) = Inr (Some buffer, AMEDIA_OK, src')) \<and>
   (\<exists>src'. read example_env (example_externals 1000 []) None (example_source 16 False)
        = Inr (None, AMEDIA_ERROR_END_OF_STREAM, src')) \<and>
   (\<exists>src'. read example_env_io_error
        (example_externals 1000
           [ReadCb 100, WriteCb (example_frame 2 2 16 44100 0) [[1, 2], [3, 4]]])
        None (example_source 16 False) = Inr (None, AMEDIA_ERROR_END_OF_STREAM, src')) \<and>
   (\<exists>src'. read example_env
        (example_externals 1000 [WriteCb (example_frame 2 1 16 44100 0) [[1, 2]]])
        None (example_source 16 False) = Inr (None, AMEDIA_ERROR_END_OF_STREAM, src')) \<and>
   (\<exists>src'. read example_env
        ((example_externals 1000 [WriteCb (example_frame 2 2 16 44100 0) [[1, 2], [3, 4]]])
           \<lparr>acquire_buffer := NO_INIT\<rparr>)
        None (example_source 16 False) = Inr (None, AMEDIA_ERROR_END_OF_STREAM, src'))"
proof -
  let ?src = "example_source 16 False"
  let ?p = "example_parser 16 False"
  let ?f = "example_frame 2 2 16 44100 0"
  let ?b = "[[1, 2], [3, 4]] :: FLAC__int32 list list"
  note sp = example_source_parser(1)[of 16 False]
  note T = read_reports_end_of_stream
  have 1: "\<exists>buffer src'. read example_env (example_externals 1000 [WriteCb ?f ?b])
        None ?src = Inr (Some buffer, AMEDIA_OK, src')"
  proof -
    have "\<exists>buffer st src'. read example_env (example_externals 1000 [WriteCb ?f ?b])
        None ?src = Inr (Some buffer, st, src')"
      by (simp add: read_next_unfold sp example_readBuffer)
    then obtain buffer st src' where r: "read example_env (example_externals 1000 [WriteCb ?f ?b])
        None ?src = Inr (Some buffer, st, src')" by blast
    with T[where env = example_env and ext = "example_externals 1000 [WriteCb ?f ?b]"
        and options = None and src = ?src and buffer = "Some buffer" and st = st
        and src' = src']
    have "st = AMEDIA_OK" by simp
    with r show ?thesis by blast
  qed
  have eos: "\<exists>src'. read env ext None ?src = Inr (None, AMEDIA_ERROR_END_OF_STREAM, src')"
    if d: "drive_step env (decoder_call ext False 0) (armed ?p) = Inr (ok, p')"
      and n: "\<not> ok \<or> \<not> mWriteCompleted p' \<or> invalid_blocksize p' \<or> changed_parameters p' \<or>
         (mGroup p' \<noteq> None \<and> acquire_buffer ext \<noteq> OK)"
    for env ext ok p'
  proof -
    from T[where env = env and ext = ext and doSeek = False and sample = 0 and p = ?p
        and ok = ok and p' = p'] d n
    have "readBuffer env ext False 0 ?p = Inr (None, p')" by blast
    with T[where env = env and ext = ext and src = ?src and p' = p'] show ?thesis
      unfolding sp by blast
  qed
  have 2: "\<exists>src'. read example_env (example_externals 1000 []) None ?src
        = Inr (None, AMEDIA_ERROR_END_OF_STREAM, src')"
    by (rule eos[where ok = True and p' = "armed ?p"])
       (simp_all add: drive_step_def decoder_call_def example_externals_def armed_def)
  have 3: "\<exists>src'. read example_env_io_error
        (example_externals 1000 [ReadCb 100, WriteCb ?f ?b])
        None ?src = Inr (None, AMEDIA_ERROR_END_OF_STREAM, src')"
    by (rule eos[where ok = False and p' = "armed ?p"])
       (simp_all add: drive_step_def decoder_call_def example_externals_def
          example_env_io_error_def readCallback_def)
  have 4: "\<exists>src'. read example_env
        (example_externals 1000 [WriteCb (example_frame 2 1 16 44100 0) [[1, 2]]])
        None ?src = Inr (None, AMEDIA_ERROR_END_OF_STREAM, src')"
    by (rule eos[OF example_push])
       (simp add: changed_parameters_def example_frame_def example_parser_flags
          getChannels_def example_stream_info_def)
  have 5: "\<exists>src'. read example_env
        ((example_externals 1000 [WriteCb ?f ?b])\<lparr>acquire_buffer := NO_INIT\<rparr>)
        None ?src = Inr (None, AMEDIA_ERROR_END_OF_STREAM, src')"
    by (rule eos[where ok = True and p' = "?p\<lparr>mWriteRequested := False,
          mWriteCompleted := True, mWriteHeader := header ?f, mWriteBuffer := take 2 ?b\<rparr>"])
       (simp_all add: drive_step_def decoder_call_def example_externals_def writeCallback_def
          armed_def example_parser_def FLACParser_members_def getChannels_def
          example_stream_info_def NO_INIT_def OK_def)
  from 1 2 3 4 5 show ?thesis by blast
qed

subsection \<open>Sample conversion\<close>

text \<open>
  Where the shift count is below 32 and the planes hold the samples, both conversions
  write, at position \<open>i * nChannels + c\<close>, the sample \<open>i\<close> of channel \<open>c\<close> shifted left:
  by \<open>16 - B\<close> and cut to 16 bits for depths 8 and 16, by \<open>32 - B\<close> and passed through
  \<^verbatim>\<open>float_from_i32\<close> for depths 8, 16 and 24.
\<close>

lemma collect_map_Inr: "collect (map Inr xs) = Inr xs"
  by (induction xs) simp_all

lemma length_concat_map_upt:
  "length (concat (map (\<lambda>i. map (f i) [0..<m]) [0..<n])) = n * m"
  by (induction n) simp_all

lemma nth_concat_map_upt:
  "i < n \<Longrightarrow> c < m \<Longrightarrow> concat (map (\<lambda>i. map (f i) [0..<m]) [0..<n]) ! (i * m + c) = f i c"
proof (induction n)
  case 0
  then show ?case by simp
next
  case (Suc n)
  show ?case
  proof (cases "i < n")
    case True
    then have "Suc i \<le> n" by simp
    then have "Suc i * m \<le> n * m" by (rule mult_le_mono1)
    with Suc.prems(2) have "i * m + c < n * m" by simp
    with Suc.IH[OF True Suc.prems(2)] show ?thesis
      by (simp add: nth_append length_concat_map_upt)
  next
    case False
    with Suc.prems have "i = n" by simp
    with Suc.prems(2) show ?thesis
      by (simp add: nth_append length_concat_map_upt)
  qed
qed

lemma copy_in_range:
  assumes "unat nChannels \<le> length src"
    and "\<And>c. c < unat nChannels \<Longrightarrow> unat nSamples \<le> length (src ! c)"
    and "i \<in> set [0..<unat nSamples]" and "c \<in> set [0..<unat nChannels]"
  shows "sample_at src c i = Inr (src ! c ! i)"
  using assms by (auto simp: sample_at_def dest: less_le_trans)

lemma copyTo16Signed_ok:
  assumes "bitsPerSample = 8 \<or> bitsPerSample = 16"
    and "unat nChannels \<le> length src"
    and "\<And>c. c < unat nChannels \<Longrightarrow> unat nSamples \<le> length (src ! c)"
  shows "copyTo16Signed src nSamples nChannels bitsPerSample =
     Inr (concat (map (\<lambda>i. map (\<lambda>c. ucast (push_bit (16 - unat bitsPerSample) (src ! c ! i)))
            [0..<unat nChannels]) [0..<unat nSamples]))"
proof -
  have s: "shl_int x (16 - bitsPerSample) = Inr (push_bit (16 - unat bitsPerSample) x)" for x
    using assms(1) by (auto simp: shl_int_def)
  have "concat (map (\<lambda>i. map (\<lambda>c.
        (case sample_at src c i of
           Inl e \<Rightarrow> Inl e
         | Inr x \<Rightarrow> (case shl_int x (16 - bitsPerSample) of
                       Inl e \<Rightarrow> Inl e
                     | Inr y \<Rightarrow> Inr (ucast y :: short))))
        [0..<unat nChannels]) [0..<unat nSamples])
    = map Inr (concat (map (\<lambda>i. map (\<lambda>c. ucast (push_bit (16 - unat bitsPerSample) (src ! c ! i)))
            [0..<unat nChannels]) [0..<unat nSamples]))"
    unfolding map_concat map_map comp_def
    by (intro arg_cong[where f = concat] map_cong refl)
       (simp add: copy_in_range[OF assms(2,3)] s)
  then show ?thesis
    by (simp add: copyTo16Signed_def collect_map_Inr)
qed

lemma copyToFloat_ok:
  assumes "bitsPerSample = 8 \<or> bitsPerSample = 16 \<or> bitsPerSample = 24"
    and "unat nChannels \<le> length src"
    and "\<And>c. c < unat nChannels \<Longrightarrow> unat nSamples \<le> length (src ! c)"
  shows "copyToFloat to_float src nSamples nChannels bitsPerSample =
     Inr (concat (map (\<lambda>i. map (\<lambda>c. to_float (push_bit (32 - unat bitsPerSample) (src ! c ! i)))
            [0..<unat nChannels]) [0..<unat nSamples]))"
proof -
  have s: "shl_int x (32 - bitsPerSample) = Inr (push_bit (32 - unat bitsPerSample) x)" for x
    using assms(1) by (auto simp: shl_int_def)
  have "concat (map (\<lambda>i. map (\<lambda>c.
        (case sample_at src c i of
           Inl e \<Rightarrow> Inl e
         | Inr x \<Rightarrow> (case shl_int x (32 - bitsPerSample) of
                       Inl e \<Rightarrow> Inl e
                     | Inr y \<Rightarrow> Inr (to_float y))))
        [0..<unat nChannels]) [0..<unat nSamples])
    = map Inr (concat (map (\<lambda>i. map (\<lambda>c. to_float (push_bit (32 - unat bitsPerSample) (src ! c ! i)))
            [0..<unat nChannels]) [0..<unat nSamples]))"
    unfolding map_concat map_map comp_def
    by (intro arg_cong[where f = concat] map_cong refl)
       (simp add: copy_in_range[OF assms(2,3)] s)
  then show ?thesis
    by (simp add: copyToFloat_def collect_map_Inr)
qed

lemma copyTo16Signed_sample:
  assumes "bitsPerSample = 8 \<or> bitsPerSample = 16"
    and "unat nChannels \<le> length src"
    and "\<And>c. c < unat nChannels \<Longrightarrow> unat nSamples \<le> length (src ! c)"
    and "i < unat nSamples" and "c < unat nChannels"
  shows "\<exists>dst. copyTo16Signed src nSamples nChannels bitsPerSample = Inr dst \<and>
           length dst = unat nSamples * unat nChannels \<and>
           dst ! (i * unat nChannels + c) =
             ucast (push_bit (16 - unat bitsPerSample) (src ! c ! i))"
  using copyTo16Signed_ok[OF assms(1-3)] assms(4,5)
  by (simp add: nth_concat_map_upt length_concat_map_upt)

lemma copyToFloat_sample:
  assumes "bitsPerSample = 8 \<or> bitsPerSample = 16 \<or> bitsPerSample = 24"
    and "unat nChannels \<le> length src"
    and "\<And>c. c < unat nChannels \<Longrightarrow> unat nSamples \<le> length (src ! c)"
    and "i < unat nSamples" and "c < unat nChannels"
  shows "\<exists>dst. copyToFloat to_float src nSamples nChannels bitsPerSample = Inr dst \<and>
           length dst = unat nSamples * unat nChannels \<and>
           dst ! (i * unat nChannels + c) =
             to_float (push_bit (32 - unat bitsPerSample) (src ! c ! i))"
  using copyToFloat_ok[OF assms(1-3)] assms(4,5)
  by (simp add: nth_concat_map_upt length_concat_map_upt)

text \<open>
  Claim C1. The 16-bit conversion does not keep the claim at depth 24. A 24-bit stream
  reaches it for every caller other than the media UID, since float output is selected
  for that UID only. There the shift count \<^verbatim>\<open>16 - bitsPerSample\<close>, computed in
  \<^verbatim>\<open>unsigned\<close>, is 4294967288, and the shift of the first sample is undefined.
\<close>

theorem copyTo16Signed_depth_24_shift_undefined:
  "(16 - 24 :: unsigned) = 4294967288
   \<and> (callingUid \<noteq> AID_MEDIA \<longrightarrow> \<not> shouldExtractorOutputFloat callingUid 24)
   \<and> (sample_at src 0 0 = Inr v \<and> 0 < unat nSamples \<and> 0 < unat nChannels \<longrightarrow>
        copyTo16Signed src nSamples nChannels 24 = Inl ShiftCountOutOfRange)"
proof -
  have 1: "(16 - 24 :: unsigned) = 4294967288" by simp
  have 2: "callingUid \<noteq> AID_MEDIA \<longrightarrow> \<not> shouldExtractorOutputFloat callingUid 24"
    by (simp add: shouldExtractorOutputFloat_def)
  have s: "shl_int v (16 - 24) = Inl ShiftCountOutOfRange"
    by (simp add: shl_int_def)
  have 3: "sample_at src 0 0 = Inr v \<and> 0 < unat nSamples \<and> 0 < unat nChannels \<longrightarrow>
        copyTo16Signed src nSamples nChannels 24 = Inl ShiftCountOutOfRange"
    using s by (simp add: copyTo16Signed_def upt_conv_Cons)
  from 1 2 3 show ?thesis by blast
qed

lemma example_extractor_24_44100:
  "\<exists>ex. FLACExtractor_new example_env (example_setup [example_stream_info 2 24 44100 1000]) = Inr ex
      \<and> countTracks ex = 1 \<and> getBitsPerSample (extractor_mParser ex) = 24"
  by (simp add: example_eval countTracks_def initCheck_def OK_def)

text \<open>
  A 24-bit stream opened by an application (UID 10042): the extractor reports one track,
  the track is built for 16-bit output and started, and the read of a matching frame of
  two samples ends in the undefined shift.
\<close>

theorem copyTo16Signed_depth_24_shift_undefined_witness:
  "copyTo16Signed [[1, 2], [3, 4]] 2 2 24 = Inl ShiftCountOutOfRange \<and>
   \<not> shouldExtractorOutputFloat 10042 24 \<and>
   (\<exists>ex src src1.
      FLACExtractor_new example_env (example_setup [example_stream_info 2 24 44100 1000])
        = Inr ex \<and>
      countTracks ex = 1 \<and>
      getTrack example_env (example_setup [example_stream_info 2 24 44100 1000]) 10042 0 ex
        = Inr (Some src) \<and>
      start src = Inr (AMEDIA_OK, src1) \<and>
      read example_env
        (example_externals 1000 [WriteCb (example_frame 2 2 24 44100 0) [[1, 2], [3, 4]]])
        None src1 = Inl ShiftCountOutOfRange)"
proof -
  let ?eng = "example_setup [example_stream_info 2 24 44100 1000]"
  let ?b = "[[1, 2], [3, 4]] :: FLAC__int32 list list"
  let ?ext = "example_externals 1000 [WriteCb (example_frame 2 2 24 44100 0) ?b]"
  note T = copyTo16Signed_depth_24_shift_undefined
  have 1: "copyTo16Signed ?b 2 2 24 = Inl ShiftCountOutOfRange"
    using T[where src = ?b and v = 1 and nSamples = 2 and nChannels = 2]
    by (simp add: sample_at_def)
  have 2: "\<not> shouldExtractorOutputFloat 10042 24"
    using T[where callingUid = 10042] by (simp add: AID_MEDIA_def)
  from example_extractor_24_44100 obtain ex where
    ex: "FLACExtractor_new example_env ?eng = Inr ex" and c: "countTracks ex = 1"
    and bits: "getBitsPerSample (extractor_mParser ex) = 24"
    by blast
  from c have ok: "extractor_mInitCheck ex = OK"
    by (auto simp: countTracks_def split: if_splits)
  from example_parser_reached[of 24 False] obtain p where
    p: "FLACParser_new example_env ?eng False None None = Inr p"
    and a: "allocateBuffers p = Inr (example_parser 24 False)"
    by auto
  let ?src = "\<lparr>source_mTrackMetadata = extractor_mTrackMetadata ex,
               source_mOutputFloat = False,
               source_mParser = p,
               source_mInitCheck = (initCheck p \<noteq> 0),
               mStarted = False\<rparr>"
  let ?src1 = "?src\<lparr>source_mParser := example_parser 24 False, mStarted := True\<rparr>"
  have g: "getTrack example_env ?eng 10042 0 ex = Inr (Some ?src)"
    using ok bits 2 p by (simp add: getTrack_def FLACSource_new_def)
  have st: "start ?src = Inr (AMEDIA_OK, ?src1)"
    using a by (simp add: start_def)
  have f: "fill_buffer example_env \<lparr>capacity = 16384\<rparr>
     ((example_parser 24 False)
        \<lparr>mWriteRequested := False, mWriteCompleted := True,
         mWriteHeader := header (example_frame 2 2 24 44100 0),
         mWriteBuffer := ?b\<rparr>) = Inl ShiftCountOutOfRange"
    by (simp add: fill_buffer_def 1 example_frame_def example_parser_def
          FLACParser_members_def example_stream_info_def
          getSampleRate_def getChannels_def getBitsPerSample_def getOutputSampleSize_def
          Let_def)
  have rb: "readBuffer example_env ?ext False 0 (example_parser 24 False)
      = Inl ShiftCountOutOfRange"
    using readBuffer_valid_frame[OF example_push[where n = 1000 and sample = 0 and b = 24
        and f = False and frame = "example_frame 2 2 24 44100 0"
        and planes = ?b] example_frame_accepted(1-4)[where b = 24 and f = False]]
    by (simp add: f example_externals_def)
  have r: "read example_env ?ext None ?src1 = Inl ShiftCountOutOfRange"
    by (simp add: read_next_unfold rb)
  from 1 2 ex c g st r show ?thesis by blast
qed

end
